theory Spec2Isabelle
  imports Main "HOL-Library.AList"
begin

section \<open>JavaScript values used by the signaling servers\<close>

text \<open>
  Both servers keep their state in plain JavaScript objects used as dictionaries.
  Such an object is modelled as an association list in insertion order:
  \<open>o[k]\<close> is \<open>map_of o k\<close>, \<open>o[k] = v\<close> is \<open>AList.update k v o\<close> (in place when the key
  exists, appended otherwise), \<open>delete o[k]\<close> is \<open>AList.delete k o\<close> and
  \<open>Object.keys(o)\<close> is \<open>map fst o\<close>. The lists built by these operations have
  distinct keys.

  The model reads own keys only. In JavaScript every plain object also answers to the
  names it inherits from \<open>Object.prototype\<close>: \<open>o[''constructor'']\<close> is a function, hence
  truthy, on an empty \<open>o\<close>, and an assignment to \<open>__proto__\<close> adds no key. The model
  therefore describes the servers on \<open>ordinary\<close> keys, and a statement that depends on
  an absent key being read as absent says so with \<open>ordinary k\<close>. Integer-like keys,
  which JavaScript enumerates first, are outside the model as well; no statement
  depends on the order of keys.
\<close>

type_synonym 'v obj = "(string \<times> 'v) list"

definition object_prototype_names :: "string list" where
  "object_prototype_names =
     [''constructor'', ''hasOwnProperty'', ''isPrototypeOf'', ''propertyIsEnumerable'',
      ''toLocaleString'', ''toString'', ''valueOf'', ''__proto__'',
      ''__defineGetter__'', ''__defineSetter__'', ''__lookupGetter__'', ''__lookupSetter__'']"

definition ordinary :: "string \<Rightarrow> bool" where
  "ordinary k = (k \<notin> set object_prototype_names)"

text \<open>
  A field of a socket that may not have been set, and a field of an event payload
  that the handler tests before use or only forwards, is a \<open>string option\<close>, \<open>None\<close>
  standing for \<open>undefined\<close> and \<open>null\<close> alike: both are falsy. The payload itself is
  taken to be an object (reading a field of \<open>undefined\<close> would throw before any handler
  code runs).

  The open-join server reads the target of a relayed message, and of a mentor
  control, as a key without testing it first. There \<open>null\<close> and \<open>undefined\<close> differ:
  \<open>onlineUsers[null]\<close> is the entry of the key \<open>null\<close>, \<open>onlineUsers[undefined]\<close> that of
  the key \<open>undefined\<close>. Such a field is a \<open>jsval\<close>, and \<open>property_key\<close> is the key it is
  read as; \<open>Text k\<close> also stands for any other value that converts to the key \<open>k\<close>.
  The id of a room read as a key by \<open>join_room\<close> and the mentor controls is a
  \<open>string option\<close> with \<open>None\<close> for \<open>undefined\<close>; a \<open>null\<close> room id is outside the model.
\<close>

datatype jsval = Undefined | Null | Text string

definition property_key :: "jsval \<Rightarrow> string" where
  "property_key v = (case v of Undefined \<Rightarrow> ''undefined'' | Null \<Rightarrow> ''null'' | Text k \<Rightarrow> k)"

definition truthy :: "string option \<Rightarrow> bool" where
  "truthy v = (case v of None \<Rightarrow> False | Some x \<Rightarrow> x \<noteq> [])"

definition js_key :: "string option \<Rightarrow> string" where
  "js_key v = (case v of None \<Rightarrow> ''undefined'' | Some x \<Rightarrow> x)"

datatype js_error = TypeError

text \<open>
  The user-visible texts of \<open>error_message\<close> are Portuguese sentences; each is
  named by a constructor.
  \<^item> \<open>Sala_de_mentoria_nao_encontrada\<close>: "Sala de mentoria nao encontrada."
  \<^item> \<open>Ja_esta_na_sala_ou_pendente\<close>: "Voce ja esta na sala ou sua solicitacao esta pendente."
  \<^item> \<open>Acao_nao_permitida_ou_usuario\<close>: "Acao nao permitida ou usuario nao encontrado."
  \<^item> \<open>Nao_e_o_mentor\<close>: "Voce nao e o mentor desta sala."
  \<^item> \<open>Convite_invalido\<close>: "Convite invalido ou expirado."
  \<^item> \<open>Acao_nao_permitida\<close>: "Acao nao permitida."
  \<^item> \<open>Solicitacao_nao_encontrada\<close>: "Solicitacao nao encontrada ou voce nao e o mentor."
  \<^item> \<open>Nao_autorizado_webrtc\<close>: "Usuario nao autorizado ou nao esta na sala para iniciar WebRTC."
  \<^item> \<open>User_not_registered\<close>: "User not registered."
  \<^item> \<open>Sala_nao_encontrada\<close>: "Sala nao encontrada."
  \<^item> \<open>Sala_cheia\<close>: "A sala esta cheia."
\<close>

datatype error_text =
    Sala_de_mentoria_nao_encontrada
  | Ja_esta_na_sala_ou_pendente
  | Acao_nao_permitida_ou_usuario
  | Nao_e_o_mentor
  | Convite_invalido
  | Acao_nao_permitida
  | Solicitacao_nao_encontrada
  | Nao_autorizado_webrtc
  | User_not_registered
  | Sala_nao_encontrada
  | Sala_cheia

text \<open>
  An emission records one call of \<open>emit\<close>: \<open>Socket i\<close> is \<open>socket.emit\<close> on the socket
  with id \<open>i\<close>, \<open>Room x\<close> is \<open>io.to(x).emit\<close> (a Socket.IO room; every socket is in
  the room named by its own id), \<open>Everyone\<close> is \<open>io.emit\<close> and \<open>Room_except x i\<close> is
  \<open>socket.to(x).emit\<close> from socket \<open>i\<close>.
\<close>

datatype dest = Socket string | Room string | Everyone | Room_except string string

datatype event =
    Registration_successful string string
  | Registration_failed
  | Error_message error_text
  | Mentoria_access_status string
  | Mentoria_join_request_to_mentor string string string
  | Mentoria_invitation_received string string string
  | Mentoria_initiate_webrtc_with_peer string
  | Mentoria_room_participants_update "(string \<times> string) list"
  | Presence_update "(string \<times> string \<times> bool) list"
  | Presence_update_open "(string \<times> string \<times> string option) list"
  | Webrtc_offer "string option" "string option" "string option"
  | Webrtc_answer "string option" "string option" "string option"
  | Webrtc_ice_candidate "string option" "string option" "string option"
  | Chat_message "string option" string "string option" "string option" nat
  | Call_ended_notification string
  | Joined_room_successfully string string "(string \<times> string option \<times> string option) list"
  | Participant_joined string "string option" string
  | Left_room_successfully string
  | Participant_left string "string option"
  | Force_mute string
  | Removed_from_room "string option" string

type_synonym emission = "dest \<times> event"


section \<open>The mentoria server: access control by a mentor\<close>

subsection \<open>State\<close>

record conn =
  socketId :: string
  displayName :: string

record online_user = conn +
  isMentor :: bool

record participant = conn +
  status :: string

record socket =
  userId :: "string option"
  currentRoomId :: "string option"
  sio_rooms :: "string list"

record msocket = socket +
  socket_isMentor :: bool

record mentoria_room =
  room_id :: string
  room_name :: string
  mentorId :: "string option"
  participants :: "participant obj"
  pendingRequests :: "conn obj"
  invitedUsers :: "string obj"

record mstate =
  onlineUsers :: "online_user obj"
  mentoriaRooms :: "mentoria_room obj"
  sockets :: "msocket obj"
  outbox :: "emission list"

definition defaultMentoriaRoomId :: string where
  "defaultMentoriaRoomId = ''default_mentoria_room''"

definition initial_state :: mstate where
  "initial_state =
     \<lparr>onlineUsers = [],
      mentoriaRooms =
        [(defaultMentoriaRoomId,
          \<lparr>room_id = defaultMentoriaRoomId, room_name = ''Sala de Mentoria Principal'',
           mentorId = None, participants = [], pendingRequests = [], invitedUsers = []\<rparr>)],
      sockets = [], outbox = []\<rparr>"

definition emit :: "dest \<Rightarrow> event \<Rightarrow> mstate \<Rightarrow> mstate" where
  "emit d e s = s\<lparr>outbox := outbox s @ [(d, e)]\<rparr>"

subsection \<open>Helper functions of the source\<close>

definition broadcastPresenceUpdate :: "mstate \<Rightarrow> mstate" where
  "broadcastPresenceUpdate s =
     emit Everyone
       (Presence_update (map (\<lambda>(u, e). (u, displayName e, isMentor e)) (onlineUsers s))) s"

definition joined :: "participant obj \<Rightarrow> string \<Rightarrow> bool" where
  "joined ps u = (case map_of ps u of None \<Rightarrow> False | Some p \<Rightarrow> status p = ''joined'')"

definition broadcastMentoriaRoomParticipants :: "string \<Rightarrow> mstate \<Rightarrow> mstate" where
  "broadcastMentoriaRoomParticipants roomId s =
     (case map_of (mentoriaRooms s) roomId of
        None \<Rightarrow> s
      | Some room \<Rightarrow>
          emit (Room roomId)
            (Mentoria_room_participants_update
               (map (\<lambda>(u, p). (u, displayName p))
                  (filter (\<lambda>(u, p). status p = ''joined'') (participants room)))) s)"

definition addUserToMentoriaRoom :: "string \<Rightarrow> string \<Rightarrow> string \<Rightarrow> string \<Rightarrow> mstate \<Rightarrow> mstate" where
  "addUserToMentoriaRoom sid roomId dn joinStatus s =
     (case map_of (sockets s) sid of
        None \<Rightarrow> s
      | Some sock \<Rightarrow>
     (case map_of (mentoriaRooms s) roomId of
        None \<Rightarrow> s
      | Some room \<Rightarrow>
          if \<not> truthy (userId sock) then s
          else if joined (participants room) (js_key (userId sock)) then s
          else
            broadcastMentoriaRoomParticipants roomId
              (emit (Socket sid) (Mentoria_access_status joinStatus)
                 (s\<lparr>sockets :=
                       AList.update sid
                         (sock\<lparr>sio_rooms := List.insert roomId (sio_rooms sock),
                               currentRoomId := Some roomId\<rparr>) (sockets s),
                     mentoriaRooms :=
                       AList.update roomId
                         (room\<lparr>participants :=
                                 AList.update (js_key (userId sock))
                                   \<lparr>socketId = sid, displayName = dn, status = ''joined''\<rparr>
                                   (participants room)\<rparr>) (mentoriaRooms s)\<rparr>))))"

definition removeUserFromMentoriaRoom :: "string \<Rightarrow> string \<Rightarrow> mstate \<Rightarrow> mstate" where
  "removeUserFromMentoriaRoom sid roomId s =
     (case map_of (sockets s) sid of
        None \<Rightarrow> s
      | Some sock \<Rightarrow>
     (case map_of (mentoriaRooms s) roomId of
        None \<Rightarrow> s
      | Some room \<Rightarrow>
          if \<not> truthy (userId sock) \<or> map_of (participants room) (js_key (userId sock)) = None
          then s
          else
            emit (Socket sid) (Mentoria_access_status ''not_joined'')
              (broadcastMentoriaRoomParticipants roomId
                 (s\<lparr>sockets :=
                       AList.update sid
                         (sock\<lparr>sio_rooms := removeAll roomId (sio_rooms sock),
                               currentRoomId :=
                                 (if currentRoomId sock = Some roomId then None
                                  else currentRoomId sock)\<rparr>) (sockets s),
                     mentoriaRooms :=
                       AList.update roomId
                         (room\<lparr>participants :=
                                 AList.delete (js_key (userId sock)) (participants room)\<rparr>)
                         (mentoriaRooms s)\<rparr>))))"

subsection \<open>Event handlers\<close>

text \<open>
  Every handler runs on the socket that received the event, named by its id; the
  socket's fields are read from and written to the table \<open>sockets\<close>, which stands
  for \<open>io.sockets.sockets\<close>. A handler that reads a field of \<open>undefined\<close> throws,
  which ends the process: its result is \<open>Inl TypeError\<close>.
\<close>

record register_data =
  d_userId :: "string option"
  d_displayName :: "string option"
  d_isMentor :: bool

definition connection :: "string \<Rightarrow> mstate \<Rightarrow> mstate" where
  "connection sid s =
     (case map_of (sockets s) sid of
        Some sock \<Rightarrow> s
      | None \<Rightarrow>
          s\<lparr>sockets :=
               AList.update sid
                 \<lparr>userId = None, currentRoomId = None, sio_rooms = [sid],
                  socket_isMentor = False\<rparr> (sockets s)\<rparr>)"

definition assign_default_mentor :: "string \<Rightarrow> mstate \<Rightarrow> js_error + mstate" where
  "assign_default_mentor uid s =
     (case map_of (mentoriaRooms s) defaultMentoriaRoomId of
        None \<Rightarrow> Inl TypeError
      | Some room \<Rightarrow>
          if \<not> truthy (mentorId room)
          then Inr (s\<lparr>mentoriaRooms :=
                         AList.update defaultMentoriaRoomId (room\<lparr>mentorId := Some uid\<rparr>)
                           (mentoriaRooms s)\<rparr>)
          else Inr s)"

definition register_user :: "string \<Rightarrow> register_data option \<Rightarrow> mstate \<Rightarrow> js_error + mstate" where
  "register_user sid data s =
     (case map_of (sockets s) sid of
        None \<Rightarrow> Inr s
      | Some sock \<Rightarrow>
     (case data of
        None \<Rightarrow> Inr (emit (Socket sid) Registration_failed s)
      | Some d \<Rightarrow>
          if truthy (d_userId d) \<and> truthy (d_displayName d) then
            (let uid = js_key (d_userId d);
                 s1 = s\<lparr>onlineUsers :=
                           AList.update uid
                             \<lparr>socketId = sid, displayName = js_key (d_displayName d),
                              isMentor = d_isMentor d\<rparr> (onlineUsers s),
                         sockets :=
                           AList.update sid
                             (sock\<lparr>userId := Some uid, socket_isMentor := d_isMentor d\<rparr>)
                             (sockets s)\<rparr>
             in case (if d_isMentor d then assign_default_mentor uid s1 else Inr s1) of
                  Inl e \<Rightarrow> Inl e
                | Inr s2 \<Rightarrow>
                    Inr (broadcastPresenceUpdate
                           (emit (Socket sid) (Registration_successful uid sid) s2)))
          else Inr (emit (Socket sid) Registration_failed s)))"

definition mentoria_check_access_status :: "string \<Rightarrow> string option \<Rightarrow> mstate \<Rightarrow> mstate" where
  "mentoria_check_access_status sid roomId s =
     (case map_of (sockets s) sid of
        None \<Rightarrow> s
      | Some sock \<Rightarrow>
          if \<not> truthy (userId sock) \<or> \<not> truthy roomId then s
          else
            (case map_of (mentoriaRooms s) (js_key roomId) of
               None \<Rightarrow> emit (Socket sid) (Error_message Sala_de_mentoria_nao_encontrada) s
             | Some room \<Rightarrow>
                 if joined (participants room) (js_key (userId sock))
                 then emit (Socket sid) (Mentoria_access_status ''approved'') s
                 else if map_of (pendingRequests room) (js_key (userId sock)) \<noteq> None
                 then emit (Socket sid) (Mentoria_access_status ''pending_approval'') s
                 else if truthy (map_of (invitedUsers room) (js_key (userId sock)))
                 then emit (Socket sid) (Mentoria_access_status ''invited_pending_join'') s
                 else emit (Socket sid) (Mentoria_access_status ''not_joined'') s))"

definition mentoria_request_join :: "string \<Rightarrow> string option \<Rightarrow> mstate \<Rightarrow> mstate" where
  "mentoria_request_join sid roomId s =
     (case map_of (sockets s) sid of
        None \<Rightarrow> s
      | Some sock \<Rightarrow>
          if \<not> truthy (userId sock) \<or> \<not> truthy roomId then s
          else
            (case map_of (onlineUsers s) (js_key (userId sock)) of
               None \<Rightarrow> s
             | Some me \<Rightarrow>
            (case map_of (mentoriaRooms s) (js_key roomId) of
               None \<Rightarrow> emit (Socket sid) (Error_message Sala_de_mentoria_nao_encontrada) s
             | Some room \<Rightarrow>
                 if map_of (participants room) (js_key (userId sock)) \<noteq> None
                 then emit (Socket sid) (Error_message Ja_esta_na_sala_ou_pendente) s
                 else
                   (let s1 = emit (Socket sid) (Mentoria_access_status ''pending_approval'')
                               (s\<lparr>mentoriaRooms :=
                                     AList.update (js_key roomId)
                                       (room\<lparr>pendingRequests :=
                                               AList.update (js_key (userId sock))
                                                 \<lparr>socketId = sid, displayName = displayName me\<rparr>
                                                 (pendingRequests room)\<rparr>)
                                       (mentoriaRooms s)\<rparr>);
                        mentorSocketId =
                          (if truthy (mentorId room)
                           then map_option socketId (map_of (onlineUsers s) (js_key (mentorId room)))
                           else None)
                    in if truthy mentorSocketId
                       then emit (Room (js_key mentorSocketId))
                              (Mentoria_join_request_to_mentor (js_key (userId sock))
                                 (displayName me) (js_key roomId)) s1
                       else s1))))"

text \<open>
  \<open>room.mentorId !== socket.userId\<close> compares a value that is \<open>null\<close> or a string
  with one that is \<open>undefined\<close> or a string: the two are equal only when both are
  the same string.
\<close>

definition is_mentor_of :: "mentoria_room \<Rightarrow> msocket \<Rightarrow> bool" where
  "is_mentor_of room sock = (mentorId room \<noteq> None \<and> mentorId room = userId sock)"

definition mentoria_invite_user ::
  "string \<Rightarrow> string option \<Rightarrow> string option \<Rightarrow> mstate \<Rightarrow> js_error + mstate" where
  "mentoria_invite_user sid roomId targetUserId s =
     (case map_of (sockets s) sid of
        None \<Rightarrow> Inr s
      | Some sock \<Rightarrow>
          if \<not> socket_isMentor sock \<or> \<not> truthy roomId \<or> \<not> truthy targetUserId
             \<or> map_of (onlineUsers s) (js_key targetUserId) = None
          then Inr (emit (Socket sid) (Error_message Acao_nao_permitida_ou_usuario) s)
          else
            (case map_of (mentoriaRooms s) (js_key roomId) of
               None \<Rightarrow> Inr (emit (Socket sid) (Error_message Nao_e_o_mentor) s)
             | Some room \<Rightarrow>
                 if \<not> is_mentor_of room sock
                 then Inr (emit (Socket sid) (Error_message Nao_e_o_mentor) s)
                 else
                   (let s1 = s\<lparr>mentoriaRooms :=
                                   AList.update (js_key roomId)
                                     (room\<lparr>invitedUsers :=
                                             AList.update (js_key targetUserId)
                                               (js_key (userId sock)) (invitedUsers room)\<rparr>)
                                     (mentoriaRooms s)\<rparr>
                    in case map_of (onlineUsers s) (js_key targetUserId) of
                         None \<Rightarrow> Inl TypeError
                       | Some target \<Rightarrow>
                      (case map_of (onlineUsers s) (js_key (userId sock)) of
                         None \<Rightarrow> Inl TypeError
                       | Some me \<Rightarrow>
                           Inr (emit (Room (socketId target))
                                  (Mentoria_invitation_received (js_key roomId)
                                     (js_key (userId sock)) (displayName me)) s1)))))"

definition mentoria_accept_invitation ::
  "string \<Rightarrow> string option \<Rightarrow> string option \<Rightarrow> mstate \<Rightarrow> js_error + mstate" where
  "mentoria_accept_invitation sid roomId inviterId s =
     (case map_of (sockets s) sid of
        None \<Rightarrow> Inr s
      | Some sock \<Rightarrow>
          if \<not> truthy (userId sock) \<or> \<not> truthy roomId then Inr s
          else
            (case map_of (mentoriaRooms s) (js_key roomId) of
               None \<Rightarrow> Inr (emit (Socket sid) (Error_message Convite_invalido) s)
             | Some room \<Rightarrow>
                 if \<not> truthy (map_of (invitedUsers room) (js_key (userId sock)))
                    \<or> map_of (invitedUsers room) (js_key (userId sock)) \<noteq> inviterId
                 then Inr (emit (Socket sid) (Error_message Convite_invalido) s)
                 else
                   (let s1 = s\<lparr>mentoriaRooms :=
                                   AList.update (js_key roomId)
                                     (room\<lparr>invitedUsers :=
                                             AList.delete (js_key (userId sock))
                                               (invitedUsers room)\<rparr>)
                                     (mentoriaRooms s)\<rparr>
                    in case map_of (onlineUsers s) (js_key (userId sock)) of
                         None \<Rightarrow> Inl TypeError
                       | Some me \<Rightarrow>
                           Inr (addUserToMentoriaRoom sid (js_key roomId) (displayName me)
                                  ''invited_joined'' s1))))"

definition mentoria_approve_request ::
  "string \<Rightarrow> string option \<Rightarrow> string option \<Rightarrow> mstate \<Rightarrow> mstate" where
  "mentoria_approve_request sid roomId targetUserId s =
     (case map_of (sockets s) sid of
        None \<Rightarrow> s
      | Some sock \<Rightarrow>
          if \<not> socket_isMentor sock \<or> \<not> truthy roomId \<or> \<not> truthy targetUserId
          then emit (Socket sid) (Error_message Acao_nao_permitida) s
          else
            (case map_of (mentoriaRooms s) (js_key roomId) of
               None \<Rightarrow> emit (Socket sid) (Error_message Solicitacao_nao_encontrada) s
             | Some room \<Rightarrow>
                 if \<not> is_mentor_of room sock
                 then emit (Socket sid) (Error_message Solicitacao_nao_encontrada) s
                 else
                   (case map_of (pendingRequests room) (js_key targetUserId) of
                      None \<Rightarrow> emit (Socket sid) (Error_message Solicitacao_nao_encontrada) s
                    | Some req \<Rightarrow>
                        (let s1 = s\<lparr>mentoriaRooms :=
                                        AList.update (js_key roomId)
                                          (room\<lparr>pendingRequests :=
                                                  AList.delete (js_key targetUserId)
                                                    (pendingRequests room)\<rparr>)
                                          (mentoriaRooms s)\<rparr>
                         in case map_of (sockets s1) (socketId req) of
                              Some targetSocket \<Rightarrow>
                                addUserToMentoriaRoom (socketId req) (js_key roomId)
                                  (displayName req) ''approved'' s1
                            | None \<Rightarrow> s1))))"

definition mentoria_deny_request ::
  "string \<Rightarrow> string option \<Rightarrow> string option \<Rightarrow> mstate \<Rightarrow> mstate" where
  "mentoria_deny_request sid roomId targetUserId s =
     (case map_of (sockets s) sid of
        None \<Rightarrow> s
      | Some sock \<Rightarrow>
          if \<not> socket_isMentor sock \<or> \<not> truthy roomId \<or> \<not> truthy targetUserId
          then emit (Socket sid) (Error_message Acao_nao_permitida) s
          else
            (case map_of (mentoriaRooms s) (js_key roomId) of
               None \<Rightarrow> emit (Socket sid) (Error_message Solicitacao_nao_encontrada) s
             | Some room \<Rightarrow>
                 if \<not> is_mentor_of room sock
                 then emit (Socket sid) (Error_message Solicitacao_nao_encontrada) s
                 else
                   (case map_of (pendingRequests room) (js_key targetUserId) of
                      None \<Rightarrow> emit (Socket sid) (Error_message Solicitacao_nao_encontrada) s
                    | Some req \<Rightarrow>
                        emit (Room (socketId req)) (Mentoria_access_status ''denied'')
                          (s\<lparr>mentoriaRooms :=
                                AList.update (js_key roomId)
                                  (room\<lparr>pendingRequests :=
                                          AList.delete (js_key targetUserId)
                                            (pendingRequests room)\<rparr>)
                                  (mentoriaRooms s)\<rparr>))))"

definition initiate_webrtc :: "string \<Rightarrow> string \<Rightarrow> mstate \<Rightarrow> string \<times> participant \<Rightarrow> mstate" where
  "initiate_webrtc sid uid s kp =
     (if fst kp \<noteq> uid \<and> status (snd kp) = ''joined''
      then emit (Room (socketId (snd kp))) (Mentoria_initiate_webrtc_with_peer uid)
             (emit (Room sid) (Mentoria_initiate_webrtc_with_peer (fst kp)) s)
      else s)"

definition mentoria_user_ready_for_webrtc :: "string \<Rightarrow> string option \<Rightarrow> mstate \<Rightarrow> mstate" where
  "mentoria_user_ready_for_webrtc sid roomId s =
     (case map_of (sockets s) sid of
        None \<Rightarrow> s
      | Some sock \<Rightarrow>
          if \<not> truthy (userId sock) \<or> \<not> truthy roomId then s
          else
            (case map_of (mentoriaRooms s) (js_key roomId) of
               None \<Rightarrow> emit (Socket sid) (Error_message Nao_autorizado_webrtc) s
             | Some room \<Rightarrow>
                 if \<not> joined (participants room) (js_key (userId sock))
                 then emit (Socket sid) (Error_message Nao_autorizado_webrtc) s
                 else
                   broadcastMentoriaRoomParticipants (js_key roomId)
                     (foldl (initiate_webrtc sid (js_key (userId sock))) s (participants room))))"

definition mentoria_leave_room :: "string \<Rightarrow> string option \<Rightarrow> mstate \<Rightarrow> mstate" where
  "mentoria_leave_room sid roomId s =
     (case map_of (sockets s) sid of
        None \<Rightarrow> s
      | Some sock \<Rightarrow>
          if truthy (userId sock) \<and> truthy roomId
          then removeUserFromMentoriaRoom sid (js_key roomId) s
          else s)"

text \<open>
  The three relay handlers differ only in the event they forward; \<open>mk\<close> is the
  constructor of that event (sender, body, room).
\<close>

definition relay ::
  "(string option \<Rightarrow> string option \<Rightarrow> string option \<Rightarrow> event) \<Rightarrow>
   string \<Rightarrow> string option \<Rightarrow> string option \<Rightarrow> string option \<Rightarrow> mstate \<Rightarrow> mstate" where
  "relay mk sid targetUserId body roomId s =
     (case map_of (sockets s) sid of
        None \<Rightarrow> s
      | Some sock \<Rightarrow>
          if \<not> truthy (userId sock) \<or> \<not> truthy targetUserId \<or> \<not> truthy body then s
          else
            (let targetSocketId =
                   map_option socketId (map_of (onlineUsers s) (js_key targetUserId))
             in if truthy targetSocketId
                then emit (Room (js_key targetSocketId)) (mk (userId sock) body roomId) s
                else s))"

definition webrtc_offer ::
  "string \<Rightarrow> string option \<Rightarrow> string option \<Rightarrow> string option \<Rightarrow> mstate \<Rightarrow> mstate" where
  "webrtc_offer = relay Webrtc_offer"

definition webrtc_answer ::
  "string \<Rightarrow> string option \<Rightarrow> string option \<Rightarrow> string option \<Rightarrow> mstate \<Rightarrow> mstate" where
  "webrtc_answer = relay Webrtc_answer"

definition webrtc_ice_candidate ::
  "string \<Rightarrow> string option \<Rightarrow> string option \<Rightarrow> string option \<Rightarrow> mstate \<Rightarrow> mstate" where
  "webrtc_ice_candidate = relay Webrtc_ice_candidate"

text \<open>The timestamp of a chat message is the clock reading, an input of the handler.\<close>

definition chat_to :: "event \<Rightarrow> mstate \<Rightarrow> string \<times> participant \<Rightarrow> mstate" where
  "chat_to messagePayload t kp =
     (if status (snd kp) = ''joined''
      then emit (Room (socketId (snd kp))) messagePayload t
      else t)"

definition chat_message ::
  "string \<Rightarrow> string option \<Rightarrow> string option \<Rightarrow> nat \<Rightarrow> mstate \<Rightarrow> mstate" where
  "chat_message sid roomId messageText now s =
     (case map_of (sockets s) sid of
        None \<Rightarrow> s
      | Some sock \<Rightarrow>
          if \<not> truthy (userId sock) \<or> \<not> truthy roomId
             \<or> map_of (mentoriaRooms s) (js_key roomId) = None \<or> \<not> truthy messageText
          then s
          else
            (case map_of (mentoriaRooms s) (js_key roomId) of
               None \<Rightarrow> s
             | Some room \<Rightarrow>
                 if joined (participants room) (js_key (userId sock))
                 then
                   foldl
                     (chat_to
                        (Chat_message roomId (js_key (userId sock))
                           (map_option displayName
                              (map_of (onlineUsers s) (js_key (userId sock))))
                           messageText now))
                     s (participants room)
                 else s))"

definition end_call_1x1 :: "string \<Rightarrow> string option \<Rightarrow> mstate \<Rightarrow> mstate" where
  "end_call_1x1 sid targetUserId s =
     (case map_of (sockets s) sid of
        None \<Rightarrow> s
      | Some sock \<Rightarrow>
          if \<not> truthy (userId sock) \<or> \<not> truthy targetUserId then s
          else
            (let targetSocketId =
                   map_option socketId (map_of (onlineUsers s) (js_key targetUserId))
             in if truthy targetSocketId
                then emit (Room (js_key targetSocketId))
                       (Call_ended_notification (js_key (userId sock))) s
                else s))"

text \<open>
  On \<open>disconnect\<close> the handler runs and the socket then leaves
  \<open>io.sockets.sockets\<close> (and with it every Socket.IO room).
\<close>

definition disconnect :: "string \<Rightarrow> mstate \<Rightarrow> mstate" where
  "disconnect sid s =
     (case map_of (sockets s) sid of
        None \<Rightarrow> s
      | Some sock \<Rightarrow>
          (let s2 =
                 (if truthy (userId sock) then
                    (let s1 =
                           (case find (\<lambda>r. map_of (participants r) (js_key (userId sock)) \<noteq> None)
                                   (map snd (mentoriaRooms s)) of
                              Some room \<Rightarrow> removeUserFromMentoriaRoom sid (room_id room) s
                            | None \<Rightarrow> s)
                     in broadcastPresenceUpdate
                          (s1\<lparr>onlineUsers :=
                                 AList.delete (js_key (userId sock)) (onlineUsers s1)\<rparr>))
                  else s)
           in s2\<lparr>sockets := AList.delete sid (sockets s2)\<rparr>))"

datatype mevent =
    Connection string
  | Register_user string "register_data option"
  | Mentoria_check_access_status string "string option"
  | Mentoria_request_join string "string option"
  | Mentoria_invite_user string "string option" "string option"
  | Mentoria_accept_invitation string "string option" "string option"
  | Mentoria_approve_request string "string option" "string option"
  | Mentoria_deny_request string "string option" "string option"
  | Mentoria_user_ready_for_webrtc string "string option"
  | Mentoria_leave_room string "string option"
  | Webrtc_offer_ev string "string option" "string option" "string option"
  | Webrtc_answer_ev string "string option" "string option" "string option"
  | Webrtc_ice_candidate_ev string "string option" "string option" "string option"
  | Chat_message_ev string "string option" "string option" nat
  | End_call_1x1 string "string option"
  | Disconnect string

fun step :: "mevent \<Rightarrow> mstate \<Rightarrow> js_error + mstate" where
  "step (Connection sid) s = Inr (connection sid s)"
| "step (Register_user sid d) s = register_user sid d s"
| "step (Mentoria_check_access_status sid r) s = Inr (mentoria_check_access_status sid r s)"
| "step (Mentoria_request_join sid r) s = Inr (mentoria_request_join sid r s)"
| "step (Mentoria_invite_user sid r t) s = mentoria_invite_user sid r t s"
| "step (Mentoria_accept_invitation sid r i) s = mentoria_accept_invitation sid r i s"
| "step (Mentoria_approve_request sid r t) s = Inr (mentoria_approve_request sid r t s)"
| "step (Mentoria_deny_request sid r t) s = Inr (mentoria_deny_request sid r t s)"
| "step (Mentoria_user_ready_for_webrtc sid r) s = Inr (mentoria_user_ready_for_webrtc sid r s)"
| "step (Mentoria_leave_room sid r) s = Inr (mentoria_leave_room sid r s)"
| "step (Webrtc_offer_ev sid t b r) s = Inr (webrtc_offer sid t b r s)"
| "step (Webrtc_answer_ev sid t b r) s = Inr (webrtc_answer sid t b r s)"
| "step (Webrtc_ice_candidate_ev sid t b r) s = Inr (webrtc_ice_candidate sid t b r s)"
| "step (Chat_message_ev sid r m n) s = Inr (chat_message sid r m n s)"
| "step (End_call_1x1 sid t) s = Inr (end_call_1x1 sid t s)"
| "step (Disconnect sid) s = Inr (disconnect sid s)"

fun run :: "mevent list \<Rightarrow> mstate \<Rightarrow> js_error + mstate" where
  "run [] s = Inr s"
| "run (e # es) s = (case step e s of Inl err \<Rightarrow> Inl err | Inr s' \<Rightarrow> run es s')"

section \<open>The open-join server: rooms created on demand\<close>

subsection \<open>State\<close>

record online_user_open = conn +
  user_currentRoomId :: "string option"

record room =
  id :: string
  name :: string
  ownerId :: string
  members :: "string obj"

text \<open>
  \<open>members\<close> is the field \<open>participants\<close> of a room of this server: it maps a user id
  to the id of the socket that joined.
\<close>

record state =
  onlineUsers_open :: "online_user_open obj"
  rooms :: "room obj"
  sockets_open :: "socket obj"
  outbox_open :: "emission list"

definition initial_state_open :: state where
  "initial_state_open = \<lparr>onlineUsers_open = [], rooms = [], sockets_open = [], outbox_open = []\<rparr>"

definition emit_open :: "dest \<Rightarrow> event \<Rightarrow> state \<Rightarrow> state" where
  "emit_open d e s = s\<lparr>outbox_open := outbox_open s @ [(d, e)]\<rparr>"

subsection \<open>Helper functions of the source\<close>

definition broadcastPresenceUpdate_open :: "state \<Rightarrow> state" where
  "broadcastPresenceUpdate_open s =
     emit_open Everyone
       (Presence_update_open
          (map (\<lambda>(u, e). (u, displayName e, user_currentRoomId e)) (onlineUsers_open s))) s"

definition getRoomParticipantDetails ::
  "string \<Rightarrow> state \<Rightarrow> (string \<times> string option \<times> string option) list" where
  "getRoomParticipantDetails roomId s =
     (case map_of (rooms s) roomId of
        None \<Rightarrow> []
      | Some r \<Rightarrow>
          map (\<lambda>(u, i). (u, map_option displayName (map_of (onlineUsers_open s) u),
                              map_option socketId (map_of (onlineUsers_open s) u)))
            (members r))"

definition leaveRoom :: "string \<Rightarrow> string \<Rightarrow> state \<Rightarrow> state" where
  "leaveRoom sid roomId s =
     (case map_of (sockets_open s) sid of
        None \<Rightarrow> s
      | Some sock \<Rightarrow>
     (case map_of (rooms s) roomId of
        None \<Rightarrow> s
      | Some r \<Rightarrow>
     (case map_of (onlineUsers_open s) (js_key (userId sock)) of
        None \<Rightarrow> s
      | Some me \<Rightarrow>
          if \<not> truthy (map_of (members r) (js_key (userId sock))) then s
          else
            (let r' = r\<lparr>members := AList.delete (js_key (userId sock)) (members r)\<rparr>;
                 s1 = s\<lparr>sockets_open :=
                           AList.update sid
                             (sock\<lparr>sio_rooms := removeAll roomId (sio_rooms sock),
                                   currentRoomId := None\<rparr>) (sockets_open s),
                         rooms := AList.update roomId r' (rooms s),
                         onlineUsers_open :=
                           AList.update (js_key (userId sock))
                             (me\<lparr>user_currentRoomId := None\<rparr>) (onlineUsers_open s)\<rparr>;
                 s2 = emit_open (Room roomId)
                        (Participant_left (js_key (userId sock)) (Some (displayName me)))
                        (emit_open (Socket sid) (Left_room_successfully roomId) s1)
             in if length (map fst (members r')) = 0
                then s2\<lparr>rooms := AList.delete roomId (rooms s2)\<rparr>
                else s2))))"

definition joinRoom :: "string \<Rightarrow> string \<Rightarrow> state \<Rightarrow> js_error + state" where
  "joinRoom sid roomId s =
     (case map_of (sockets_open s) sid of
        None \<Rightarrow> Inr s
      | Some sock \<Rightarrow>
     (case map_of (rooms s) roomId of
        None \<Rightarrow> Inr s
      | Some r \<Rightarrow>
          if map_of (onlineUsers_open s) (js_key (userId sock)) = None then Inr s
          else if length (map fst (members r)) \<ge> 20
          then Inr (emit_open (Socket sid) (Error_message Sala_cheia) s)
          else
            (let s1 = (if truthy (currentRoomId sock) \<and> currentRoomId sock \<noteq> Some roomId
                       then leaveRoom sid (js_key (currentRoomId sock)) s
                       else s)
             in case map_of (sockets_open s1) sid of
                  None \<Rightarrow> Inl TypeError
                | Some sock1 \<Rightarrow>
               (case map_of (rooms s1) roomId of
                  None \<Rightarrow> Inl TypeError
                | Some r1 \<Rightarrow>
               (case map_of (onlineUsers_open s1) (js_key (userId sock1)) of
                  None \<Rightarrow> Inl TypeError
                | Some me \<Rightarrow>
                    (let s2 = s1\<lparr>sockets_open :=
                                    AList.update sid
                                      (sock1\<lparr>sio_rooms := List.insert roomId (sio_rooms sock1),
                                             currentRoomId := Some roomId\<rparr>) (sockets_open s1),
                                  rooms :=
                                    AList.update roomId
                                      (r1\<lparr>members :=
                                            AList.update (js_key (userId sock1)) sid (members r1)\<rparr>)
                                      (rooms s1),
                                  onlineUsers_open :=
                                    AList.update (js_key (userId sock1))
                                      (me\<lparr>user_currentRoomId := Some roomId\<rparr>)
                                      (onlineUsers_open s1)\<rparr>
                     in Inr (emit_open (Room_except roomId sid)
                               (Participant_joined (js_key (userId sock1))
                                  (Some (displayName me)) sid)
                               (emit_open (Socket sid)
                                  (Joined_room_successfully roomId (name r1)
                                     (getRoomParticipantDetails roomId s2)) s2))))))))"

subsection \<open>Event handlers\<close>

definition connection_open :: "string \<Rightarrow> state \<Rightarrow> state" where
  "connection_open sid s =
     (case map_of (sockets_open s) sid of
        Some sock \<Rightarrow> s
      | None \<Rightarrow>
          s\<lparr>sockets_open :=
               AList.update sid \<lparr>userId = None, currentRoomId = None, sio_rooms = [sid]\<rparr>
                 (sockets_open s)\<rparr>)"

definition register_user_open ::
  "string \<Rightarrow> (string option \<times> string option) option \<Rightarrow> state \<Rightarrow> state" where
  "register_user_open sid data s =
     (case map_of (sockets_open s) sid of
        None \<Rightarrow> s
      | Some sock \<Rightarrow>
     (case data of
        None \<Rightarrow> emit_open (Socket sid) Registration_failed s
      | Some (uid, dn) \<Rightarrow>
          if truthy uid \<and> truthy dn then
            emit_open (Socket sid) (Registration_successful (js_key uid) sid)
              (broadcastPresenceUpdate_open
                 (s\<lparr>onlineUsers_open :=
                       AList.update (js_key uid)
                         \<lparr>socketId = sid, displayName = js_key dn, user_currentRoomId = None\<rparr>
                         (onlineUsers_open s),
                     sockets_open :=
                       AList.update sid (sock\<lparr>userId := Some (js_key uid)\<rparr>) (sockets_open s)\<rparr>))
          else emit_open (Socket sid) Registration_failed s))"

text \<open>
  The id of a new room is built from the clock and a random number; it is an input
  of the handler.
\<close>

definition create_room :: "string \<Rightarrow> string option \<Rightarrow> string \<Rightarrow> state \<Rightarrow> js_error + state" where
  "create_room sid roomName roomId s =
     (case map_of (sockets_open s) sid of
        None \<Rightarrow> Inr s
      | Some sock \<Rightarrow>
          if \<not> truthy (userId sock)
          then Inr (emit_open (Socket sid) (Error_message User_not_registered) s)
          else
            joinRoom sid roomId
              (s\<lparr>rooms :=
                    AList.update roomId
                      \<lparr>id = roomId,
                       name =
                         (if truthy roomName then js_key roomName
                          else ''Mentoria de '' @
                               (let dn = map_option displayName
                                           (map_of (onlineUsers_open s) (js_key (userId sock)))
                                in if truthy dn then js_key dn else js_key (userId sock))),
                       ownerId = js_key (userId sock), members = []\<rparr> (rooms s)\<rparr>))"

definition join_room :: "string \<Rightarrow> string option \<Rightarrow> state \<Rightarrow> js_error + state" where
  "join_room sid roomId s =
     (case map_of (sockets_open s) sid of
        None \<Rightarrow> Inr s
      | Some sock \<Rightarrow>
          if \<not> truthy (userId sock)
          then Inr (emit_open (Socket sid) (Error_message User_not_registered) s)
          else if map_of (rooms s) (js_key roomId) \<noteq> None
          then joinRoom sid (js_key roomId) s
          else Inr (emit_open (Socket sid) (Error_message Sala_nao_encontrada) s))"

definition leave_room :: "string \<Rightarrow> state \<Rightarrow> state" where
  "leave_room sid s =
     (case map_of (sockets_open s) sid of
        None \<Rightarrow> s
      | Some sock \<Rightarrow>
          if truthy (currentRoomId sock) then leaveRoom sid (js_key (currentRoomId sock)) s
          else s)"

definition relay_open ::
  "(string option \<Rightarrow> string option \<Rightarrow> string option \<Rightarrow> event) \<Rightarrow>
   string \<Rightarrow> jsval \<Rightarrow> string option \<Rightarrow> string option \<Rightarrow> state \<Rightarrow> state" where
  "relay_open mk sid targetUserId body roomId s =
     (case map_of (sockets_open s) sid of
        None \<Rightarrow> s
      | Some sock \<Rightarrow>
          (let targetSocketId =
                 map_option socketId (map_of (onlineUsers_open s) (property_key targetUserId))
           in if truthy targetSocketId
              then emit_open (Room (js_key targetSocketId)) (mk (userId sock) body roomId) s
              else s))"

definition webrtc_offer_open ::
  "string \<Rightarrow> jsval \<Rightarrow> string option \<Rightarrow> string option \<Rightarrow> state \<Rightarrow> state" where
  "webrtc_offer_open = relay_open Webrtc_offer"



definition disconnect_open :: "string \<Rightarrow> state \<Rightarrow> state" where
  "disconnect_open sid s =
     (case map_of (sockets_open s) sid of
        None \<Rightarrow> s
      | Some sock \<Rightarrow>
          (let s2 =
                 (if truthy (userId sock) then
                    (let s1 = (if truthy (currentRoomId sock)
                               then leaveRoom sid (js_key (currentRoomId sock)) s
                               else s)
                     in broadcastPresenceUpdate_open
                          (s1\<lparr>onlineUsers_open :=
                                 AList.delete (js_key (userId sock)) (onlineUsers_open s1)\<rparr>))
                  else s)
           in s2\<lparr>sockets_open := AList.delete sid (sockets_open s2)\<rparr>))"

definition chat_message_open ::
  "string \<Rightarrow> string option \<Rightarrow> string option \<Rightarrow> nat \<Rightarrow> state \<Rightarrow> state" where
  "chat_message_open sid roomId messageText now s =
     (case map_of (sockets_open s) sid of
        None \<Rightarrow> s
      | Some sock \<Rightarrow>
          if \<not> truthy (userId sock) \<or> \<not> truthy roomId then s
          else
            (case map_of (rooms s) (js_key roomId) of
               None \<Rightarrow> s
             | Some r \<Rightarrow>
                 if truthy (map_of (members r) (js_key (userId sock)))
                 then
                   foldl
                     (\<lambda>t i.
                        emit_open (Room i)
                          (Chat_message None (js_key (userId sock))
                             (map_option displayName
                                (map_of (onlineUsers_open s) (js_key (userId sock))))
                             messageText now) t)
                     s (map snd (members r))
                 else s))"

definition is_owner_of :: "string option \<Rightarrow> socket \<Rightarrow> state \<Rightarrow> bool" where
  "is_owner_of roomId sock s =
     (truthy (userId sock)
      \<and> map_of (onlineUsers_open s) (js_key (userId sock)) \<noteq> None
      \<and> (case map_of (rooms s) (js_key roomId) of
            None \<Rightarrow> False
          | Some r \<Rightarrow> Some (ownerId r) = userId sock))"

definition mentor_mute_participant ::
  "string \<Rightarrow> string option \<Rightarrow> jsval \<Rightarrow> state \<Rightarrow> state" where
  "mentor_mute_participant sid roomId targetUserId s =
     (case map_of (sockets_open s) sid of
        None \<Rightarrow> s
      | Some sock \<Rightarrow>
          if \<not> is_owner_of roomId sock s
          then emit_open (Socket sid) (Error_message Acao_nao_permitida) s
          else
            (case map_of (rooms s) (js_key roomId) of
               None \<Rightarrow> s
             | Some r \<Rightarrow>
                 (let targetSocketId =
                        map_option socketId (map_of (onlineUsers_open s) (property_key targetUserId))
                  in if truthy targetSocketId \<and> truthy (map_of (members r) (property_key targetUserId))
                     then emit_open (Room (js_key targetSocketId))
                            (Force_mute (js_key (userId sock))) s
                     else s)))"

definition mentor_remove_participant ::
  "string \<Rightarrow> string option \<Rightarrow> jsval \<Rightarrow> state \<Rightarrow> state" where
  "mentor_remove_participant sid roomId targetUserId s =
     (case map_of (sockets_open s) sid of
        None \<Rightarrow> s
      | Some sock \<Rightarrow>
          if \<not> is_owner_of roomId sock s
          then emit_open (Socket sid) (Error_message Acao_nao_permitida) s
          else
            (case map_of (rooms s) (js_key roomId) of
               None \<Rightarrow> s
             | Some r \<Rightarrow>
                 (case map_of (onlineUsers_open s) (property_key targetUserId) of
                    None \<Rightarrow> s
                  | Some target \<Rightarrow>
                      if map_of (sockets_open s) (socketId target) \<noteq> None
                         \<and> truthy (map_of (members r) (property_key targetUserId))
                      then leaveRoom (socketId target) (js_key roomId)
                             (emit_open (Socket (socketId target))
                                (Removed_from_room roomId (js_key (userId sock))) s)
                      else s)))"

section \<open>The access states of the specification\<close>

text \<open>
  The specification speaks of a room's membership set, pending-request set and
  invitation set. In the mentoria server they are the \<open>joined\<close> entries of
  \<open>participants\<close>, the keys of \<open>pendingRequests\<close> and the keys of \<open>invitedUsers\<close>.
  \<open>status_of\<close> says, for the final state of a run, in which of the three a user is.
\<close>

definition in_membership :: "mentoria_room \<Rightarrow> string \<Rightarrow> bool" where
  "in_membership r u = joined (participants r) u"

definition in_pending :: "mentoria_room \<Rightarrow> string \<Rightarrow> bool" where
  "in_pending r u = (map_of (pendingRequests r) u \<noteq> None)"

definition in_invited :: "mentoria_room \<Rightarrow> string \<Rightarrow> bool" where
  "in_invited r u = (map_of (invitedUsers r) u \<noteq> None)"

text \<open>
  \<open>the_room\<close> reads a room of a run's final state; a run that threw, or a room that
  is not in the registry, gives \<open>None\<close>.
\<close>

definition the_room :: "js_error + mstate \<Rightarrow> string \<Rightarrow> mentoria_room option" where
  "the_room res rid = (case res of Inl e \<Rightarrow> None | Inr s \<Rightarrow> map_of (mentoriaRooms s) rid)"

definition the_user :: "js_error + mstate \<Rightarrow> string \<Rightarrow> online_user option" where
  "the_user res u = (case res of Inl e \<Rightarrow> None | Inr s \<Rightarrow> map_of (onlineUsers s) u)"

definition in_room_open :: "state \<Rightarrow> string \<Rightarrow> string \<Rightarrow> bool" where
  "in_room_open s rid u =
     (case map_of (rooms s) rid of None \<Rightarrow> False | Some r \<Rightarrow> map_of (members r) u \<noteq> None)"

definition status_of :: "js_error + mstate \<Rightarrow> string \<Rightarrow> string \<Rightarrow> (bool \<times> bool \<times> bool) option" where
  "status_of res rid u =
     map_option (\<lambda>r. (in_membership r u, in_pending r u, in_invited r u)) (the_room res rid)"

definition outbox_of :: "js_error + mstate \<Rightarrow> emission list" where
  "outbox_of res = (case res of Inl e \<Rightarrow> [] | Inr s \<Rightarrow> outbox s)"

text \<open>
  \<open>rooms_kept rs rs'\<close>: every room of registry \<open>rs\<close> is still in \<open>rs'\<close>, with the same
  mentor if it had one.
\<close>

definition rooms_kept :: "mentoria_room obj \<Rightarrow> mentoria_room obj \<Rightarrow> bool" where
  "rooms_kept rs rs' =
     (\<forall>rid room. map_of rs rid = Some room \<longrightarrow>
        (\<exists>room'. map_of rs' rid = Some room' \<and>
                 (truthy (mentorId room) \<longrightarrow> mentorId room' = mentorId room)))"

section \<open>Example sessions\<close>

text \<open>
  Mia registers as a mentor on socket \<open>m\<close> and Uma as a user on socket \<open>u\<close>.
  \<open>final es\<close> is the state of the mentoria server after the events \<open>es\<close>.
\<close>

definition mia :: register_data where
  "mia = \<lparr>d_userId = Some ''M'', d_displayName = Some ''Mia'', d_isMentor = True\<rparr>"

definition uma :: register_data where
  "uma = \<lparr>d_userId = Some ''U'', d_displayName = Some ''Uma'', d_isMentor = False\<rparr>"

definition main_room :: "string option" where
  "main_room = Some defaultMentoriaRoomId"

definition arrive :: "mevent list" where
  "arrive = [Connection ''m'', Register_user ''m'' (Some mia),
             Connection ''u'', Register_user ''u'' (Some uma)]"

definition final :: "mevent list \<Rightarrow> mstate" where
  "final es = (case run es initial_state of Inl e \<Rightarrow> initial_state | Inr s \<Rightarrow> s)"

definition admitted :: "mevent list" where
  "admitted = arrive @ [Mentoria_request_join ''u'' main_room,
                        Mentoria_approve_request ''m'' main_room (Some ''U'')]"


definition abandoned :: "mevent list" where
  "abandoned = arrive @ [Mentoria_request_join ''u'' main_room, Disconnect ''u'']"

definition mentor_in :: "mevent list" where
  "mentor_in = [Connection ''m'', Register_user ''m'' (Some mia),
                Mentoria_request_join ''m'' main_room,
                Mentoria_approve_request ''m'' main_room (Some ''M'')]"

text \<open>
  In the open-join server, \<open>signed_in who\<close> connects a socket and registers a user,
  both named \<open>who\<close>. \<open>two_rooms\<close> has \<open>x\<close> alone in \<open>room_1\<close> and \<open>y\<close> alone in
  \<open>room_2\<close>, each created by its occupant. In \<open>second_socket\<close> a second socket,
  \<open>x2\<close>, has registered under the identity \<open>x\<close> as well. \<open>full_house\<close> is \<open>two_rooms\<close>
  with twenty participants in \<open>room_2\<close>.
\<close>

definition ok :: "js_error + state \<Rightarrow> state" where
  "ok res = (case res of Inl e \<Rightarrow> initial_state_open | Inr s \<Rightarrow> s)"

definition signed_in :: "string \<Rightarrow> state \<Rightarrow> state" where
  "signed_in who s = register_user_open who (Some (Some who, Some who)) (connection_open who s)"

definition two_rooms :: state where
  "two_rooms =
     ok (create_room ''y'' None ''room_2''
           (signed_in ''y'' (ok (create_room ''x'' None ''room_1''
                                   (signed_in ''x'' initial_state_open)))))"

definition second_socket :: state where
  "second_socket =
     register_user_open ''x2'' (Some (Some ''x'', Some ''x'')) (connection_open ''x2'' two_rooms)"

definition crowd :: "string obj" where
  "crowd = map (\<lambda>c. ([c], [c])) ''abcdefghijklmnopqrst''"

definition full_house :: state where
  "full_house =
     two_rooms\<lparr>rooms :=
       AList.update ''room_2''
         \<lparr>id = ''room_2'', name = ''Mentoria de y'', ownerId = ''y'', members = crowd\<rparr>
         (rooms two_rooms)\<rparr>"

section \<open>Properties\<close>

subsection \<open>Emissions leave the registries alone\<close>

lemma mentoriaRooms_emit [simp]: "mentoriaRooms (emit d e s) = mentoriaRooms s"
  by (simp add: emit_def)

lemma mentoriaRooms_presence [simp]:
  "mentoriaRooms (broadcastPresenceUpdate s) = mentoriaRooms s"
  by (simp add: broadcastPresenceUpdate_def)

lemma mentoriaRooms_participants_update [simp]:
  "mentoriaRooms (broadcastMentoriaRoomParticipants r s) = mentoriaRooms s"
  by (simp add: broadcastMentoriaRoomParticipants_def split: option.splits)

lemma mentoriaRooms_foldl:
  "(\<And>t x. mentoriaRooms (f t x) = mentoriaRooms t) \<Longrightarrow>
   mentoriaRooms (foldl f s xs) = mentoriaRooms s"
  by (induction xs arbitrary: s) auto

lemma mentoriaRooms_ready:
  "mentoriaRooms (mentoria_user_ready_for_webrtc sid r s) = mentoriaRooms s"
proof -
  have "mentoriaRooms (foldl (initiate_webrtc a b) s xs) = mentoriaRooms s" for a b xs
    by (rule mentoriaRooms_foldl) (simp add: initiate_webrtc_def)
  then show ?thesis
    by (simp add: mentoria_user_ready_for_webrtc_def split: option.splits)
qed

lemma mentoriaRooms_chat: "mentoriaRooms (chat_message sid r m n s) = mentoriaRooms s"
proof -
  have "mentoriaRooms (foldl (chat_to p) s xs) = mentoriaRooms s" for p xs
    by (rule mentoriaRooms_foldl) (simp add: chat_to_def)
  then show ?thesis
    by (simp add: chat_message_def split: option.splits)
qed

lemma rooms_emit_open [simp]: "rooms (emit_open d e s) = rooms s"
  by (simp add: emit_open_def)

lemma sockets_emit_open [simp]: "sockets_open (emit_open d e s) = sockets_open s"
  by (simp add: emit_open_def)

lemma users_emit_open [simp]: "onlineUsers_open (emit_open d e s) = onlineUsers_open s"
  by (simp add: emit_open_def)

subsection \<open>No handler of the mentoria server removes a room or changes a mentor\<close>

lemma rooms_kept_refl [simp]: "rooms_kept rs rs"
  by (simp add: rooms_kept_def)

lemma rooms_kept_trans:
  assumes ab: "rooms_kept a b" and bc: "rooms_kept b c"
  shows "rooms_kept a c"
  unfolding rooms_kept_def
proof (intro allI impI)
  fix rid room
  assume r: "map_of a rid = Some room"
  from ab r obtain room' where b: "map_of b rid = Some room'"
    and m: "truthy (mentorId room) \<longrightarrow> mentorId room' = mentorId room"
    unfolding rooms_kept_def by blast
  from bc b obtain room'' where c: "map_of c rid = Some room''"
    and m': "truthy (mentorId room') \<longrightarrow> mentorId room'' = mentorId room'"
    unfolding rooms_kept_def by blast
  from c m m' show "\<exists>room'. map_of c rid = Some room' \<and>
      (truthy (mentorId room) \<longrightarrow> mentorId room' = mentorId room)"
    by auto
qed

lemma rooms_kept_update:
  "map_of rs rid = Some room \<Longrightarrow>
   (truthy (mentorId room) \<longrightarrow> mentorId room' = mentorId room) \<Longrightarrow>
   rooms_kept rs (AList.update rid room' rs)"
  by (auto simp: rooms_kept_def update_conv')

lemma rooms_kept_add:
  "rooms_kept (mentoriaRooms s) (mentoriaRooms (addUserToMentoriaRoom sid r dn js s))"
  by (auto simp: addUserToMentoriaRoom_def rooms_kept_update split: option.splits)

lemma rooms_kept_add_after:
  "rooms_kept rs (mentoriaRooms s) \<Longrightarrow>
   rooms_kept rs (mentoriaRooms (addUserToMentoriaRoom a b c d s))"
  by (erule rooms_kept_trans) (rule rooms_kept_add)

lemma rooms_kept_remove:
  "rooms_kept (mentoriaRooms s) (mentoriaRooms (removeUserFromMentoriaRoom sid r s))"
  by (auto simp: removeUserFromMentoriaRoom_def rooms_kept_update split: option.splits)

lemma rooms_kept_register:
  "register_user sid d s = Inr s' \<Longrightarrow> rooms_kept (mentoriaRooms s) (mentoriaRooms s')"
  by (auto simp: register_user_def assign_default_mentor_def Let_def rooms_kept_update
      split: option.splits if_splits sum.splits)

lemma rooms_kept_request:
  "rooms_kept (mentoriaRooms s) (mentoriaRooms (mentoria_request_join sid r s))"
  by (auto simp: mentoria_request_join_def Let_def rooms_kept_update split: option.splits)

lemma rooms_kept_invite:
  "mentoria_invite_user sid r t s = Inr s' \<Longrightarrow> rooms_kept (mentoriaRooms s) (mentoriaRooms s')"
  by (auto simp: mentoria_invite_user_def Let_def rooms_kept_update
      split: option.splits if_splits)

lemma rooms_kept_accept:
  assumes "mentoria_accept_invitation sid r i s = Inr s'"
  shows "rooms_kept (mentoriaRooms s) (mentoriaRooms s')"
  using assms
  by (auto simp: mentoria_accept_invitation_def Let_def rooms_kept_update
      intro!: rooms_kept_add_after split: if_splits option.splits)

lemma rooms_kept_approve:
  "rooms_kept (mentoriaRooms s) (mentoriaRooms (mentoria_approve_request sid r t s))"
  by (auto simp: mentoria_approve_request_def Let_def rooms_kept_update
      intro!: rooms_kept_add_after split: if_splits option.splits)

lemma rooms_kept_deny:
  "rooms_kept (mentoriaRooms s) (mentoriaRooms (mentoria_deny_request sid r t s))"
  by (auto simp: mentoria_deny_request_def Let_def rooms_kept_update
      split: if_splits option.splits)

lemma rooms_kept_disconnect:
  "rooms_kept (mentoriaRooms s) (mentoriaRooms (disconnect sid s))"
  by (auto simp: disconnect_def Let_def rooms_kept_remove split: option.splits)

lemma rooms_kept_step:
  "step e s = Inr s' \<Longrightarrow> rooms_kept (mentoriaRooms s) (mentoriaRooms s')"
proof (cases e)
  case (Connection sid)
  then show "step e s = Inr s' \<Longrightarrow> ?thesis"
    by (auto simp: connection_def split: option.splits)
next
  case (Mentoria_check_access_status sid r)
  then show "step e s = Inr s' \<Longrightarrow> ?thesis"
    by (auto simp: mentoria_check_access_status_def split: option.splits)
next
  case (Mentoria_leave_room sid r)
  then show "step e s = Inr s' \<Longrightarrow> ?thesis"
    by (auto simp: mentoria_leave_room_def rooms_kept_remove split: option.splits)
next
  case (Webrtc_offer_ev sid t b r)
  then show "step e s = Inr s' \<Longrightarrow> ?thesis"
    by (auto simp: webrtc_offer_def relay_def Let_def split: option.splits)
next
  case (Webrtc_answer_ev sid t b r)
  then show "step e s = Inr s' \<Longrightarrow> ?thesis"
    by (auto simp: webrtc_answer_def relay_def Let_def split: option.splits)
next
  case (Webrtc_ice_candidate_ev sid t b r)
  then show "step e s = Inr s' \<Longrightarrow> ?thesis"
    by (auto simp: webrtc_ice_candidate_def relay_def Let_def split: option.splits)
next
  case (End_call_1x1 sid t)
  then show "step e s = Inr s' \<Longrightarrow> ?thesis"
    by (auto simp: end_call_1x1_def Let_def split: option.splits)
qed (auto simp: rooms_kept_register rooms_kept_request rooms_kept_invite rooms_kept_accept
       rooms_kept_approve rooms_kept_deny rooms_kept_disconnect mentoriaRooms_ready
       mentoriaRooms_chat)

lemma rooms_kept_run:
  "run es s = Inr s' \<Longrightarrow> rooms_kept (mentoriaRooms s) (mentoriaRooms s')"
proof (induction es arbitrary: s)
  case Nil
  then show ?case by simp
next
  case (Cons e es)
  then show ?case
    by (auto split: sum.splits intro: rooms_kept_trans[OF rooms_kept_step])
qed

subsection \<open>What \<open>leaveRoom\<close> does when its guard passes\<close>

lemma delete_only_key: "fst ` set al \<subseteq> {k} \<Longrightarrow> AList.delete k al = []"
  by (induction al) auto

lemma leaveRoom_last_member:
  assumes "map_of (sockets_open t) sid = Some sock"
    and "map_of (rooms t) rid = Some r"
    and "map_of (onlineUsers_open t) (js_key (userId sock)) = Some me"
    and "truthy (map_of (members r) (js_key (userId sock)))"
    and "fst ` set (members r) \<subseteq> {js_key (userId sock)}"
  shows "map_of (rooms (leaveRoom sid rid t)) rid = None"
  using assms by (simp add: leaveRoom_def Let_def delete_only_key delete_conv')

lemma leaveRoom_tables:
  assumes "map_of (sockets_open t) sid = Some sock"
    and "map_of (rooms t) rid = Some r"
    and "map_of (onlineUsers_open t) (js_key (userId sock)) = Some me"
    and "truthy (map_of (members r) (js_key (userId sock)))"
  shows "sockets_open (leaveRoom sid rid t) =
           AList.update sid
             (sock\<lparr>sio_rooms := removeAll rid (sio_rooms sock), currentRoomId := None\<rparr>)
             (sockets_open t)"
    and "onlineUsers_open (leaveRoom sid rid t) =
           AList.update (js_key (userId sock)) (me\<lparr>user_currentRoomId := None\<rparr>)
             (onlineUsers_open t)"
    and "rid' \<noteq> rid \<Longrightarrow> map_of (rooms (leaveRoom sid rid t)) rid' = map_of (rooms t) rid'"
    and "in_room_open (leaveRoom sid rid t) rid (js_key (userId sock)) = False"
  using assms
  by (simp_all add: leaveRoom_def Let_def update_conv' delete_conv' in_room_open_def)

lemma only_in_room:
  assumes "list_all (\<lambda>p. fst p = R \<or> map_of (members (snd p)) u = None) (rooms s)"
  shows "\<forall>r. r \<noteq> R \<longrightarrow> \<not> in_room_open s r u"
proof (intro allI impI notI)
  fix r
  assume "r \<noteq> R" and "in_room_open s r u"
  then obtain room where m: "map_of (rooms s) r = Some room"
    and i: "map_of (members room) u \<noteq> None"
    by (auto simp: in_room_open_def split: option.splits)
  from m have "(r, room) \<in> set (rooms s)" by (rule map_of_SomeD)
  with assms have "r = R \<or> map_of (members room) u = None"
    by (auto simp: list_all_iff)
  with \<open>r \<noteq> R\<close> i show False by simp
qed

subsection \<open>Admission is idempotent\<close>

text \<open>
  C6: \<open>admit\<close> (\<open>addUserToMentoriaRoom\<close>) for a user who is already joined in the room
  returns the state as it was: no second membership entry, and nothing added to the
  emissions, so no further participant-update broadcast.
\<close>

theorem admit_idempotent:
  assumes "map_of (sockets s) sid = Some sock"
    and "userId sock = Some u"
    and "map_of (mentoriaRooms s) roomId = Some room"
    and "in_membership room u"
  shows "addUserToMentoriaRoom sid roomId dn joinStatus s = s"
  using assms by (simp add: addUserToMentoriaRoom_def js_key_def in_membership_def)

theorem admit_idempotent_witness:
  "in_membership (the (map_of (mentoriaRooms (final admitted)) defaultMentoriaRoomId)) ''U''
   \<and> addUserToMentoriaRoom ''u'' defaultMentoriaRoomId ''Uma'' ''approved'' (final admitted)
       = final admitted"
proof -
  let ?s = "final admitted"
  have 1: "map_of (sockets ?s) ''u'' = Some (the (map_of (sockets ?s) ''u''))"
    by code_simp
  have 2: "userId (the (map_of (sockets ?s) ''u'')) = Some ''U''"
    by code_simp
  have 3: "map_of (mentoriaRooms ?s) defaultMentoriaRoomId
             = Some (the (map_of (mentoriaRooms ?s) defaultMentoriaRoomId))"
    by code_simp
  have 4: "in_membership (the (map_of (mentoriaRooms ?s) defaultMentoriaRoomId)) ''U''"
    by code_simp
  from 4 admit_idempotent[OF 1 2 3 4] show ?thesis by simp
qed

text \<open>Two admissions in a row have the effect of one.\<close>

lemma admit_twice:
  "addUserToMentoriaRoom sid roomId dn js (addUserToMentoriaRoom sid roomId dn js s)
     = addUserToMentoriaRoom sid roomId dn js s"
  by (auto simp: addUserToMentoriaRoom_def broadcastMentoriaRoomParticipants_def emit_def
      update_conv' joined_def split: option.splits)

subsection \<open>Relay to an offline target\<close>



text \<open>
  A user registered under the identity \<open>null\<close> is the target of a relayed message whose
  target field is \<open>null\<close>: the message is delivered to that user's socket.
\<close>

lemma relay_null_reaches_user_null:
  "webrtc_offer_open ''x'' Null (Some ''sdp'') None (signed_in ''null'' two_rooms)
     = emit_open (Room ''null'') (Webrtc_offer (Some ''x'') (Some ''sdp'') None)
         (signed_in ''null'' two_rooms)"
  by code_simp

subsection \<open>Approving a request that is no longer pending\<close>

lemma approve_refused:
  assumes "map_of (sockets s) sid = Some sock"
    and "socket_isMentor sock" and "truthy roomId" and "truthy targetUserId"
    and "ordinary (js_key targetUserId)"
    and "case map_of (mentoriaRooms s) (js_key roomId) of
           None \<Rightarrow> True
         | Some room \<Rightarrow> \<not> is_mentor_of room sock \<or> \<not> in_pending room (js_key targetUserId)"
  shows "mentoria_approve_request sid roomId targetUserId s =
           emit (Socket sid) (Error_message Solicitacao_nao_encontrada) s"
  using assms
  by (auto simp: mentoria_approve_request_def in_pending_def split: option.splits)

lemma approve_no_pending:
  assumes "map_of (sockets s) sid = Some sock"
    and "socket_isMentor sock" and "truthy roomId" and "truthy targetUserId"
    and "ordinary (js_key targetUserId)"
    and "case map_of (mentoriaRooms s) (js_key roomId) of
           None \<Rightarrow> True | Some room \<Rightarrow> \<not> in_pending room (js_key targetUserId)"
  shows "mentoria_approve_request sid roomId targetUserId s =
           emit (Socket sid) (Error_message Solicitacao_nao_encontrada) s"
  using assms(6) by (intro approve_refused[OF assms(1-5)]) (auto split: option.splits)

lemma approve_after_deny:
  assumes "map_of (sockets s) sid = Some sock"
    and "socket_isMentor sock" and "truthy roomId" and "truthy targetUserId"
    and "ordinary (js_key targetUserId)"
  shows "mentoria_approve_request sid roomId targetUserId
           (mentoria_deny_request sid roomId targetUserId s) =
         emit (Socket sid) (Error_message Solicitacao_nao_encontrada)
           (mentoria_deny_request sid roomId targetUserId s)"
  using assms
  by (auto simp: mentoria_approve_request_def mentoria_deny_request_def emit_def
      update_conv' delete_conv' split: option.splits)

lemma add_keeps_mentor_socket:
  assumes "map_of (sockets s) sid = Some sock" and "socket_isMentor sock"
  shows "\<exists>sock'. map_of (sockets (addUserToMentoriaRoom a r dn js s)) sid = Some sock'
               \<and> socket_isMentor sock'"
  using assms
  by (auto simp: addUserToMentoriaRoom_def broadcastMentoriaRoomParticipants_def emit_def
      update_conv' split: option.splits)

lemma add_keeps_not_pending:
  assumes "case map_of (mentoriaRooms s) r of
             None \<Rightarrow> True | Some room \<Rightarrow> \<not> in_pending room u"
  shows "case map_of (mentoriaRooms (addUserToMentoriaRoom a r' dn js s)) r of
           None \<Rightarrow> True | Some room \<Rightarrow> \<not> in_pending room u"
  using assms
  by (auto simp: addUserToMentoriaRoom_def in_pending_def update_conv' split: option.splits)

lemma approve_after_approve:
  assumes sock: "map_of (sockets s) sid = Some sock"
    and m: "socket_isMentor sock" and r: "truthy roomId" and t: "truthy targetUserId"
    and o: "ordinary (js_key targetUserId)"
  shows "mentoria_approve_request sid roomId targetUserId
           (mentoria_approve_request sid roomId targetUserId s) =
         emit (Socket sid) (Error_message Solicitacao_nao_encontrada)
           (mentoria_approve_request sid roomId targetUserId s)"
proof (cases "case map_of (mentoriaRooms s) (js_key roomId) of
                None \<Rightarrow> True
              | Some room \<Rightarrow> \<not> is_mentor_of room sock
                           \<or> \<not> in_pending room (js_key targetUserId)")
  case True
  let ?e = "emit (Socket sid) (Error_message Solicitacao_nao_encontrada) s"
  have first: "mentoria_approve_request sid roomId targetUserId s = ?e"
    by (rule approve_refused[OF sock m r t o True])
  have e_sock: "map_of (sockets ?e) sid = Some sock"
    using sock by (simp add: emit_def)
  have e_rooms: "case map_of (mentoriaRooms ?e) (js_key roomId) of
                   None \<Rightarrow> True
                 | Some room \<Rightarrow> \<not> is_mentor_of room sock
                              \<or> \<not> in_pending room (js_key targetUserId)"
    using True by simp
  show ?thesis
    unfolding first by (rule approve_refused[OF e_sock m r t o e_rooms])
next
  case False
  then obtain room req where room: "map_of (mentoriaRooms s) (js_key roomId) = Some room"
    and auth: "is_mentor_of room sock"
    and req: "map_of (pendingRequests room) (js_key targetUserId) = Some req"
    by (auto simp: in_pending_def split: option.splits)
  let ?s' = "mentoria_approve_request sid roomId targetUserId s"
  let ?s1 = "s\<lparr>mentoriaRooms :=
                 AList.update (js_key roomId)
                   (room\<lparr>pendingRequests :=
                           AList.delete (js_key targetUserId) (pendingRequests room)\<rparr>)
                   (mentoriaRooms s)\<rparr>"
  have s1_sock: "map_of (sockets ?s1) sid = Some sock" using sock by simp
  have s1_np: "case map_of (mentoriaRooms ?s1) (js_key roomId) of
                 None \<Rightarrow> True | Some room \<Rightarrow> \<not> in_pending room (js_key targetUserId)"
    by (simp add: update_conv' delete_conv' in_pending_def)
  have eq: "?s' = (case map_of (sockets s) (socketId req) of
                     None \<Rightarrow> ?s1
                   | Some x \<Rightarrow> addUserToMentoriaRoom (socketId req) (js_key roomId)
                                (displayName req) ''approved'' ?s1)"
    using sock m r t room auth req by (simp add: mentoria_approve_request_def Let_def)
  have "\<exists>sock'. map_of (sockets ?s') sid = Some sock' \<and> socket_isMentor sock'"
  proof (cases "map_of (sockets s) (socketId req)")
    case None
    with s1_sock m show ?thesis by (simp add: eq)
  next
    case (Some x)
    with add_keeps_mentor_socket[OF s1_sock m] show ?thesis by (simp add: eq)
  qed
  then obtain sock' where sock': "map_of (sockets ?s') sid = Some sock'" "socket_isMentor sock'"
    by blast
  have np: "case map_of (mentoriaRooms ?s') (js_key roomId) of
              None \<Rightarrow> True | Some room \<Rightarrow> \<not> in_pending room (js_key targetUserId)"
    using add_keeps_not_pending[OF s1_np] s1_np
    by (cases "map_of (sockets s) (socketId req)") (auto simp: eq)
  show ?thesis
    by (rule approve_no_pending[OF sock' r t o np])
qed

text \<open>
  C7, as stated, fails for the disconnect: Uma asks to join and disconnects. Her
  request is still pending, and Mia's approval does not fail: it sends no error, to
  Mia or anyone, and removes the request.
\<close>

theorem approve_after_disconnect_counterexample:
  "status_of (run abandoned initial_state) defaultMentoriaRoomId ''U''
     = Some (False, True, False)
   \<and> status_of (run (abandoned @ [Mentoria_approve_request ''m'' main_room (Some ''U'')])
                  initial_state) defaultMentoriaRoomId ''U''
       = Some (False, False, False)
   \<and> outbox_of (run (abandoned @ [Mentoria_approve_request ''m'' main_room (Some ''U'')])
                  initial_state)
       = outbox_of (run abandoned initial_state)"
  by code_simp

text \<open>
  C7, amended: for a target whose identity is an ordinary key, \<open>approve\<close> by a mentor
  socket fails with the not-found error ("Solicitacao nao encontrada ou voce nao e o
  mentor.") sent to the caller, and leaves the registry of rooms, hence every
  membership set, as it was, whenever the target has no pending record in the room;
  in particular when it follows a deny or an approve of the same request, which
  consume the record. A disconnect of the requester does not consume the record.
\<close>

theorem approve_after_record_consumed:
  assumes "map_of (sockets s) sid = Some sock"
    and "socket_isMentor sock" and "truthy roomId" and "truthy targetUserId"
    and "ordinary (js_key targetUserId)"
  shows "((case map_of (mentoriaRooms s) (js_key roomId) of
             None \<Rightarrow> True | Some room \<Rightarrow> \<not> in_pending room (js_key targetUserId)) \<longrightarrow>
            mentoria_approve_request sid roomId targetUserId s =
              emit (Socket sid) (Error_message Solicitacao_nao_encontrada) s
            \<and> mentoriaRooms (mentoria_approve_request sid roomId targetUserId s)
                = mentoriaRooms s)
       \<and> mentoria_approve_request sid roomId targetUserId
           (mentoria_deny_request sid roomId targetUserId s) =
         emit (Socket sid) (Error_message Solicitacao_nao_encontrada)
           (mentoria_deny_request sid roomId targetUserId s)
       \<and> mentoriaRooms (mentoria_approve_request sid roomId targetUserId
                          (mentoria_deny_request sid roomId targetUserId s))
           = mentoriaRooms (mentoria_deny_request sid roomId targetUserId s)
       \<and> mentoria_approve_request sid roomId targetUserId
           (mentoria_approve_request sid roomId targetUserId s) =
         emit (Socket sid) (Error_message Solicitacao_nao_encontrada)
           (mentoria_approve_request sid roomId targetUserId s)
       \<and> mentoriaRooms (mentoria_approve_request sid roomId targetUserId
                          (mentoria_approve_request sid roomId targetUserId s))
           = mentoriaRooms (mentoria_approve_request sid roomId targetUserId s)"
  using approve_no_pending[OF assms] approve_after_deny[OF assms] approve_after_approve[OF assms]
  by simp

text \<open>
  Uma asks to join. Mia denies and then approves: the approval is refused. Mia
  approves twice: the second approval is refused.
\<close>

theorem approve_after_record_consumed_witness:
  "mentoria_approve_request ''m'' main_room (Some ''U'')
     (final (arrive @ [Mentoria_request_join ''u'' main_room,
                       Mentoria_deny_request ''m'' main_room (Some ''U'')]))
   = emit (Socket ''m'') (Error_message Solicitacao_nao_encontrada)
       (final (arrive @ [Mentoria_request_join ''u'' main_room,
                         Mentoria_deny_request ''m'' main_room (Some ''U'')]))
   \<and> mentoria_approve_request ''m'' main_room (Some ''U'')
       (mentoria_approve_request ''m'' main_room (Some ''U'')
          (final (arrive @ [Mentoria_request_join ''u'' main_room])))
     = emit (Socket ''m'') (Error_message Solicitacao_nao_encontrada)
         (mentoria_approve_request ''m'' main_room (Some ''U'')
            (final (arrive @ [Mentoria_request_join ''u'' main_room])))"
proof -
  let ?d = "final (arrive @ [Mentoria_request_join ''u'' main_room,
                             Mentoria_deny_request ''m'' main_room (Some ''U'')])"
  let ?p = "final (arrive @ [Mentoria_request_join ''u'' main_room])"
  have d1: "map_of (sockets ?d) ''m'' = Some (the (map_of (sockets ?d) ''m''))"
    and d2: "socket_isMentor (the (map_of (sockets ?d) ''m''))"
    and d6: "case map_of (mentoriaRooms ?d) (js_key main_room) of
               None \<Rightarrow> True | Some room \<Rightarrow> \<not> in_pending room (js_key (Some ''U''))"
    by code_simp+
  have p1: "map_of (sockets ?p) ''m'' = Some (the (map_of (sockets ?p) ''m''))"
    and p2: "socket_isMentor (the (map_of (sockets ?p) ''m''))"
    by code_simp+
  have 3: "truthy main_room" and 4: "truthy (Some ''U'')"
    and 5: "ordinary (js_key (Some ''U''))"
    by code_simp+
  from approve_after_record_consumed[OF d1 d2 3 4 5] d6
       approve_after_record_consumed[OF p1 p2 3 4 5]
  show ?thesis by blast
qed

subsection \<open>Approving a requester who has disconnected\<close>

text \<open>
  C10: when \<open>approve\<close> passes its checks (the caller is a mentor socket, the room
  exists, the caller is the room's mentor, the pending record exists) but the socket
  recorded in the pending record is no longer connected, the pending record is
  deleted and nothing else happens: the participants are unchanged and nothing is
  emitted, to the user or to anyone.
\<close>

theorem approve_of_disconnected_requester:
  assumes "map_of (sockets s) sid = Some sock"
    and "socket_isMentor sock" and "truthy roomId" and "truthy targetUserId"
    and "map_of (mentoriaRooms s) (js_key roomId) = Some room"
    and "is_mentor_of room sock"
    and "map_of (pendingRequests room) (js_key targetUserId) = Some req"
    and "map_of (sockets s) (socketId req) = None"
  shows "mentoria_approve_request sid roomId targetUserId s =
           s\<lparr>mentoriaRooms :=
               AList.update (js_key roomId)
                 (room\<lparr>pendingRequests :=
                         AList.delete (js_key targetUserId) (pendingRequests room)\<rparr>)
                 (mentoriaRooms s)\<rparr>
       \<and> outbox (mentoria_approve_request sid roomId targetUserId s) = outbox s
       \<and> (\<exists>room'. map_of (mentoriaRooms (mentoria_approve_request sid roomId targetUserId s))
                      (js_key roomId) = Some room'
                  \<and> participants room' = participants room
                  \<and> \<not> in_pending room' (js_key targetUserId))"
  using assms
  by (simp add: mentoria_approve_request_def Let_def update_conv' delete_conv' in_pending_def)

text \<open>
  Uma asks to join and disconnects; her request stays pending. Mia's approval then
  removes the request, admits nobody and emits nothing.
\<close>

theorem approve_of_disconnected_requester_witness:
  "status_of (Inr (final (arrive @ [Mentoria_request_join ''u'' main_room, Disconnect ''u''])))
     defaultMentoriaRoomId ''U'' = Some (False, True, False)
   \<and> outbox (mentoria_approve_request ''m'' main_room (Some ''U'')
               (final (arrive @ [Mentoria_request_join ''u'' main_room, Disconnect ''u''])))
       = outbox (final (arrive @ [Mentoria_request_join ''u'' main_room, Disconnect ''u'']))
   \<and> status_of (Inr (mentoria_approve_request ''m'' main_room (Some ''U'')
                       (final (arrive @ [Mentoria_request_join ''u'' main_room,
                                         Disconnect ''u'']))))
       defaultMentoriaRoomId ''U'' = Some (False, False, False)"
proof -
  let ?s = "final (arrive @ [Mentoria_request_join ''u'' main_room, Disconnect ''u''])"
  let ?room = "the (map_of (mentoriaRooms ?s) (js_key main_room))"
  let ?req = "the (map_of (pendingRequests ?room) (js_key (Some ''U'')))"
  have 1: "map_of (sockets ?s) ''m'' = Some (the (map_of (sockets ?s) ''m''))"
    by code_simp
  have 2: "socket_isMentor (the (map_of (sockets ?s) ''m''))"
    by code_simp
  have 3: "truthy main_room" and 4: "truthy (Some ''U'')"
    by code_simp+
  have 5: "map_of (mentoriaRooms ?s) (js_key main_room) = Some ?room"
    by code_simp
  have 6: "is_mentor_of ?room (the (map_of (sockets ?s) ''m''))"
    by code_simp
  have 7: "map_of (pendingRequests ?room) (js_key (Some ''U'')) = Some ?req"
    by code_simp
  have 8: "map_of (sockets ?s) (socketId ?req) = None"
    by code_simp
  have before: "status_of (Inr ?s) defaultMentoriaRoomId ''U'' = Some (False, True, False)"
    by code_simp
  have key: "js_key main_room = defaultMentoriaRoomId" "js_key (Some ''U'') = ''U''"
    by (simp_all add: main_room_def js_key_def)
  have part: "participants ?room = []"
    by code_simp
  have inv: "invitedUsers ?room = []"
    by code_simp
  from approve_of_disconnected_requester[OF 1 2 3 4 5 6 7 8] before part inv
  show ?thesis
    by (auto simp: key status_of_def the_room_def in_membership_def in_invited_def joined_def
        update_conv')
qed

subsection \<open>Requesting to join a room that has no mentor\<close>

text \<open>
  C2, as stated, fails: on the initial room, which has no mentor, Uma's request to
  join leaves her pending and not joined.
\<close>

theorem request_join_without_authority_counterexample:
  "map_option mentorId
     (the_room (run [Connection ''u'', Register_user ''u'' (Some uma)] initial_state)
        defaultMentoriaRoomId) = Some None
   \<and> status_of (run [Connection ''u'', Register_user ''u'' (Some uma)] initial_state)
       defaultMentoriaRoomId ''U'' = Some (False, False, False)
   \<and> status_of (run [Connection ''u'', Register_user ''u'' (Some uma),
                     Mentoria_request_join ''u'' main_room] initial_state)
       defaultMentoriaRoomId ''U'' = Some (False, True, False)"
  by code_simp

lemma join_room_admits:
  assumes "map_of (sockets_open t) sid = Some sock"
    and "userId sock = Some u" and "u \<noteq> []" and "currentRoomId sock = None"
    and "map_of (onlineUsers_open t) u = Some me"
    and "map_of (rooms t) R = Some r"
    and "length (members r) < 20"
    and "ordinary u"
  shows "\<exists>t'. join_room sid (Some R) t = Inr t' \<and> in_room_open t' R u"
  using assms
  by (simp add: join_room_def joinRoom_def truthy_def js_key_def Let_def in_room_open_def
      update_conv')

text \<open>
  C2, amended: \<open>requestJoin\<close> by a registered user whose identity is an ordinary key
  and who has no participants entry, on a room that has no mentor, records a pending
  request and tells the requester \<open>pending_approval\<close>; the user is not admitted and
  nobody else is notified. Direct admission is what \<open>join_room\<close> of the open-join server
  does: on an existing room with fewer than 20 participants it makes such a registered
  user, whose socket is in no room, a participant.
\<close>

theorem request_join_without_authority:
  assumes "map_of (sockets s) sid = Some sock"
    and "userId sock = Some u" and "u \<noteq> []" and "truthy roomId"
    and "map_of (onlineUsers s) u = Some me"
    and "map_of (mentoriaRooms s) (js_key roomId) = Some room"
    and "mentorId room = None"
    and "map_of (participants room) u = None"
    and "map_of (sockets_open t) sid' = Some sock'"
    and "userId sock' = Some u'" and "u' \<noteq> []" and "currentRoomId sock' = None"
    and "map_of (onlineUsers_open t) u' = Some me'"
    and "map_of (rooms t) R = Some r"
    and "length (members r) < 20"
    and "ordinary u" and "ordinary u'"
  shows "mentoria_request_join sid roomId s =
           emit (Socket sid) (Mentoria_access_status ''pending_approval'')
             (s\<lparr>mentoriaRooms :=
                  AList.update (js_key roomId)
                    (room\<lparr>pendingRequests :=
                            AList.update u \<lparr>socketId = sid, displayName = displayName me\<rparr>
                              (pendingRequests room)\<rparr>)
                    (mentoriaRooms s)\<rparr>)
       \<and> (\<exists>room'. map_of (mentoriaRooms (mentoria_request_join sid roomId s)) (js_key roomId)
                    = Some room'
                  \<and> in_pending room' u \<and> \<not> in_membership room' u)
       \<and> (\<exists>t'. join_room sid' (Some R) t = Inr t' \<and> in_room_open t' R u')"
proof -
  have "mentoria_request_join sid roomId s =
           emit (Socket sid) (Mentoria_access_status ''pending_approval'')
             (s\<lparr>mentoriaRooms :=
                  AList.update (js_key roomId)
                    (room\<lparr>pendingRequests :=
                            AList.update u \<lparr>socketId = sid, displayName = displayName me\<rparr>
                              (pendingRequests room)\<rparr>)
                    (mentoriaRooms s)\<rparr>)"
    using assms(1-8) by (simp add: mentoria_request_join_def Let_def truthy_def js_key_def)
  moreover from this assms(8)
  have "\<exists>room'. map_of (mentoriaRooms (mentoria_request_join sid roomId s)) (js_key roomId)
                    = Some room'
                  \<and> in_pending room' u \<and> \<not> in_membership room' u"
    by (simp add: update_conv' in_pending_def in_membership_def joined_def)
  moreover have "\<exists>t'. join_room sid' (Some R) t = Inr t' \<and> in_room_open t' R u'"
    using assms(9-15) assms(17) by (rule join_room_admits)
  ultimately show ?thesis by blast
qed

theorem request_join_without_authority_witness:
  "status_of (Inr (mentoria_request_join ''u'' main_room
                     (final [Connection ''u'', Register_user ''u'' (Some uma)])))
     defaultMentoriaRoomId ''U'' = Some (False, True, False)
   \<and> (\<exists>t'. join_room ''z'' (Some ''room_2'') (signed_in ''z'' two_rooms) = Inr t'
           \<and> in_room_open t' ''room_2'' ''z'')"
proof -
  let ?s = "final [Connection ''u'', Register_user ''u'' (Some uma)]"
  let ?t = "signed_in ''z'' two_rooms"
  let ?room = "the (map_of (mentoriaRooms ?s) (js_key main_room))"
  have 1: "map_of (sockets ?s) ''u'' = Some (the (map_of (sockets ?s) ''u''))"
    by code_simp
  have 2: "userId (the (map_of (sockets ?s) ''u'')) = Some ''U''" and 3: "''U'' \<noteq> []"
    and 4: "truthy main_room"
    by code_simp+
  have 5: "map_of (onlineUsers ?s) ''U'' = Some (the (map_of (onlineUsers ?s) ''U''))"
    by code_simp
  have 6: "map_of (mentoriaRooms ?s) (js_key main_room) = Some ?room"
    by code_simp
  have 7: "mentorId ?room = None" and 8: "map_of (participants ?room) ''U'' = None"
    by code_simp+
  have 9: "map_of (sockets_open ?t) ''z'' = Some (the (map_of (sockets_open ?t) ''z''))"
    by code_simp
  have 10: "userId (the (map_of (sockets_open ?t) ''z'')) = Some ''z''" and 11: "''z'' \<noteq> []"
    and 12: "currentRoomId (the (map_of (sockets_open ?t) ''z'')) = None"
    by code_simp+
  have 13: "map_of (onlineUsers_open ?t) ''z'' = Some (the (map_of (onlineUsers_open ?t) ''z''))"
    by code_simp
  have 14: "map_of (rooms ?t) ''room_2'' = Some (the (map_of (rooms ?t) ''room_2''))"
    by code_simp
  have 15: "length (members (the (map_of (rooms ?t) ''room_2''))) < 20"
    by code_simp
  have 16: "ordinary ''U''" and 17: "ordinary ''z''"
    by code_simp+
  have key: "js_key main_room = defaultMentoriaRoomId"
    by (simp add: main_room_def js_key_def)
  have inv: "invitedUsers ?room = []" "participants ?room = []"
    by code_simp+
  from request_join_without_authority[OF 1 2 3 4 5 6 7 8 9 10 11 12 13 14 15 16 17] inv
  show ?thesis
    by (auto simp: key status_of_def the_room_def update_conv' in_membership_def in_pending_def
        in_invited_def joined_def)
qed

subsection \<open>Requesting to join from a state other than absent\<close>




text \<open>
  A user whose request is already pending can ask again: the request is recorded
  anew and the error is not sent, although its text speaks of a pending request.
\<close>

lemma repeated_request_accepted:
  "status_of (run (arrive @ [Mentoria_request_join ''u'' main_room,
                             Mentoria_request_join ''u'' main_room]) initial_state)
     defaultMentoriaRoomId ''U'' = Some (False, True, False)
   \<and> (Socket ''u'', Error_message Ja_esta_na_sala_ou_pendente)
       \<notin> set (outbox_of (run (arrive @ [Mentoria_request_join ''u'' main_room,
                                         Mentoria_request_join ''u'' main_room])
                            initial_state))"
  by code_simp

subsection \<open>The three sets of a room are not kept apart\<close>

text \<open>
  C1, as stated, fails: Uma asks to join, Mia approves, Mia then invites Uma. Uma is
  in the membership set and in the invitation set of the room at once.
\<close>

theorem membership_sets_disjoint_counterexample:
  "status_of (run (admitted @ [Mentoria_invite_user ''m'' main_room (Some ''U'')])
                initial_state) defaultMentoriaRoomId ''U''
     = Some (True, False, True)"
  by code_simp

text \<open>
  Pending and joined is reachable as well: Uma asks to join, is invited, and accepts.
  Invited and pending is the session of the previous subsection.
\<close>

lemma pending_and_joined_reachable:
  "status_of (run (arrive @ [Mentoria_request_join ''u'' main_room,
                             Mentoria_invite_user ''m'' main_room (Some ''U''),
                             Mentoria_accept_invitation ''u'' main_room (Some ''M'')])
                initial_state) defaultMentoriaRoomId ''U''
     = Some (True, True, False)"
  by code_simp

text \<open>
  C1, amended: the three sets are not mutually exclusive. The one exclusion the code
  enforces is in \<open>requestJoin\<close>, which is refused for a user with a participants entry:
  a user who is not both joined and pending in a room before \<open>requestJoin\<close> (by any
  socket, on any room) is not both joined and pending in it afterwards. \<open>invite\<close>,
  \<open>acceptInvitation\<close> and \<open>approve\<close> look at no other set, so a user can be invited and
  joined, invited and pending, or pending and joined.
\<close>

theorem request_join_keeps_members_out_of_pending:
  assumes "map_of (mentoriaRooms s) rid = Some room"
    and "\<not> (in_membership room u \<and> in_pending room u)"
  shows "\<exists>room'. map_of (mentoriaRooms (mentoria_request_join sid roomId s)) rid = Some room'
               \<and> \<not> (in_membership room' u \<and> in_pending room' u)"
  using assms
  by (auto simp: mentoria_request_join_def Let_def update_conv'
      in_pending_def in_membership_def joined_def split: option.splits)

theorem request_join_keeps_members_out_of_pending_witness:
  "\<not> (in_membership (the (map_of (mentoriaRooms (final admitted)) defaultMentoriaRoomId)) ''U''
       \<and> in_pending (the (map_of (mentoriaRooms (final admitted)) defaultMentoriaRoomId)) ''U'')
   \<and> (\<exists>room'. map_of (mentoriaRooms (mentoria_request_join ''u'' main_room (final admitted)))
                  defaultMentoriaRoomId = Some room'
               \<and> \<not> (in_membership room' ''U'' \<and> in_pending room' ''U''))"
proof -
  let ?s = "final admitted"
  let ?room = "the (map_of (mentoriaRooms ?s) defaultMentoriaRoomId)"
  have 1: "map_of (mentoriaRooms ?s) defaultMentoriaRoomId = Some ?room"
    by code_simp
  have 2: "\<not> (in_membership ?room ''U'' \<and> in_pending ?room ''U'')"
    by code_simp
  from 2 request_join_keeps_members_out_of_pending[OF 1 2] show ?thesis by blast
qed

subsection \<open>The mentor of a room is never cleared\<close>

text \<open>
  C3, as stated, fails: Mia, the mentor of the room, joins it, leaves it and
  disconnects. The room's mentor is still Mia, who is no longer registered.
\<close>

theorem authority_cleared_counterexample:
  "map_option mentorId
     (the_room (run (mentor_in @ [Mentoria_leave_room ''m'' main_room]) initial_state)
        defaultMentoriaRoomId) = Some (Some ''M'')
   \<and> map_option mentorId
       (the_room (run (mentor_in @ [Mentoria_leave_room ''m'' main_room, Disconnect ''m''])
                    initial_state) defaultMentoriaRoomId) = Some (Some ''M'')
   \<and> the_user (run (mentor_in @ [Mentoria_leave_room ''m'' main_room, Disconnect ''m''])
                  initial_state) ''M'' = None"
  by code_simp

text \<open>
  C3, amended: when a room's mentor leaves or disconnects, the room's mentor field is
  left as it is. No operation clears or changes a mentor once set: after any sequence
  of events that does not throw, every room that had a mentor still has the same one,
  whether or not that user is still registered or joined.
\<close>

theorem authority_never_cleared:
  assumes "run es s = Inr s'"
    and "map_of (mentoriaRooms s) rid = Some room"
    and "truthy (mentorId room)"
  shows "\<exists>room'. map_of (mentoriaRooms s') rid = Some room' \<and> mentorId room' = mentorId room"
  using rooms_kept_run[OF assms(1)] assms(2,3) unfolding rooms_kept_def by blast

theorem authority_never_cleared_witness:
  "\<exists>room'. map_of (mentoriaRooms
                     (final (mentor_in @ [Mentoria_leave_room ''m'' main_room, Disconnect ''m''])))
              defaultMentoriaRoomId = Some room'
          \<and> mentorId room' = Some ''M''"
proof -
  let ?s = "final mentor_in"
  let ?s' = "final (mentor_in @ [Mentoria_leave_room ''m'' main_room, Disconnect ''m''])"
  let ?room = "the (map_of (mentoriaRooms ?s) defaultMentoriaRoomId)"
  have 1: "run [Mentoria_leave_room ''m'' main_room, Disconnect ''m''] ?s = Inr ?s'"
    by code_simp
  have 2: "map_of (mentoriaRooms ?s) defaultMentoriaRoomId = Some ?room"
    by code_simp
  have 3: "truthy (mentorId ?room)"
    by code_simp
  have 4: "mentorId ?room = Some ''M''"
    by code_simp
  from authority_never_cleared[OF 1 2 3] 4 show ?thesis by simp
qed

subsection \<open>Rooms that empty\<close>

text \<open>
  C5: in the open-join server, whose rooms are all created on demand, a \<open>leaveRoom\<close>
  that passes its guard and removes the only member of a room removes the room from
  the registry. In the mentoria server no sequence of events removes a room: the
  pre-provisioned room stays in the registry, empty or not.
\<close>

theorem last_leave_destroys_adhoc_room_only:
  "(map_of (sockets_open t) sid = Some sock
      \<and> map_of (rooms t) rid = Some r
      \<and> map_of (onlineUsers_open t) (js_key (userId sock)) = Some me
      \<and> truthy (map_of (members r) (js_key (userId sock)))
      \<and> fst ` set (members r) \<subseteq> {js_key (userId sock)}
    \<longrightarrow> map_of (rooms (leaveRoom sid rid t)) rid = None)
   \<and> (run es s = Inr s' \<and> map_of (mentoriaRooms s) rid' \<noteq> None
    \<longrightarrow> map_of (mentoriaRooms s') rid' \<noteq> None)"
proof (intro conjI impI)
  assume "map_of (sockets_open t) sid = Some sock
      \<and> map_of (rooms t) rid = Some r
      \<and> map_of (onlineUsers_open t) (js_key (userId sock)) = Some me
      \<and> truthy (map_of (members r) (js_key (userId sock)))
      \<and> fst ` set (members r) \<subseteq> {js_key (userId sock)}"
  then show "map_of (rooms (leaveRoom sid rid t)) rid = None"
    by (intro leaveRoom_last_member) auto
next
  assume "run es s = Inr s' \<and> map_of (mentoriaRooms s) rid' \<noteq> None"
  then show "map_of (mentoriaRooms s') rid' \<noteq> None"
    using rooms_kept_run[of es s s'] unfolding rooms_kept_def by auto
qed

text \<open>
  \<open>x\<close>, alone in \<open>room_1\<close>, leaves: the room is gone. Uma is admitted to the main room
  of the mentoria server and leaves: the room is empty and still there.
\<close>

theorem last_leave_destroys_adhoc_room_only_witness:
  "map_of (rooms two_rooms) ''room_1'' \<noteq> None
   \<and> map_of (rooms (leaveRoom ''x'' ''room_1'' two_rooms)) ''room_1'' = None
   \<and> map_option participants
       (map_of (mentoriaRooms (final (admitted @ [Mentoria_leave_room ''u'' main_room])))
          defaultMentoriaRoomId) = Some []"
proof -
  let ?sock = "the (map_of (sockets_open two_rooms) ''x'')"
  let ?r = "the (map_of (rooms two_rooms) ''room_1'')"
  let ?me = "the (map_of (onlineUsers_open two_rooms) (js_key (userId ?sock)))"
  let ?s' = "final (admitted @ [Mentoria_leave_room ''u'' main_room])"
  have a: "map_of (sockets_open two_rooms) ''x'' = Some ?sock
      \<and> map_of (rooms two_rooms) ''room_1'' = Some ?r
      \<and> map_of (onlineUsers_open two_rooms) (js_key (userId ?sock)) = Some ?me
      \<and> truthy (map_of (members ?r) (js_key (userId ?sock)))
      \<and> fst ` set (members ?r) \<subseteq> {js_key (userId ?sock)}"
    by code_simp
  have b: "run (admitted @ [Mentoria_leave_room ''u'' main_room]) initial_state = Inr ?s'
      \<and> map_of (mentoriaRooms initial_state) defaultMentoriaRoomId \<noteq> None"
    by code_simp
  have c: "map_of (mentoriaRooms ?s') defaultMentoriaRoomId \<noteq> None
           \<longrightarrow> map_option participants (map_of (mentoriaRooms ?s') defaultMentoriaRoomId) = Some []"
    by code_simp
  have d: "map_of (rooms two_rooms) ''room_1'' \<noteq> None"
    by code_simp
  from last_leave_destroys_adhoc_room_only
         [of two_rooms "''x''" ?sock "''room_1''" ?r ?me
             "admitted @ [Mentoria_leave_room ''u'' main_room]" initial_state ?s'
             defaultMentoriaRoomId] a b c d
  show ?thesis by blast
qed

subsection \<open>Moving from one room to another in the open-join server\<close>

text \<open>
  C9, as stated, fails: the room that \<open>joinRoom\<close> leaves is the one recorded on the
  socket, not the one the user is in. \<open>x\<close> is in \<open>room_1\<close>, joined through socket \<open>x\<close>.
  A second socket registers under the same identity and joins \<open>room_2\<close>, which is not
  full: the join succeeds, \<open>room_1\<close> is not left, and \<open>x\<close> is a participant of both
  rooms.
\<close>

theorem joinRoom_second_socket_counterexample:
  "in_room_open second_socket ''room_1'' ''x''
   \<and> \<not> in_room_open second_socket ''room_2'' ''x''
   \<and> in_room_open (ok (join_room ''x2'' (Some ''room_2'') second_socket)) ''room_1'' ''x''
   \<and> in_room_open (ok (join_room ''x2'' (Some ''room_2'') second_socket)) ''room_2'' ''x''"
  by code_simp

text \<open>
  C9, amended: a socket whose own current room is \<open>R1\<close>, registered as a user whose
  identity is an ordinary key and who is a participant of \<open>R1\<close> and of no other room,
  joins a different room \<open>R2\<close>. If \<open>R2\<close> has fewer than 20
  participants, the join is the join from the state after \<open>leaveRoom\<close> of \<open>R1\<close>, so
  with all the effects of leaving, among them the removal of \<open>R1\<close> when the user was its
  last participant; afterwards the user is a participant of \<open>R2\<close> and of no other
  room. If \<open>R2\<close> has 20 participants or more, the join is rejected with "A sala esta
  cheia." and the user is still a participant of \<open>R1\<close>.
\<close>

theorem joinRoom_moves_user:
  assumes sock: "map_of (sockets_open s) sid = Some sock"
    and u: "userId sock = Some u"
    and me: "map_of (onlineUsers_open s) u = Some me"
    and cur: "currentRoomId sock = Some R1" and R1: "R1 \<noteq> []" and neq: "R1 \<noteq> R2"
    and r1: "map_of (rooms s) R1 = Some r1"
    and in1: "truthy (map_of (members r1) u)"
    and r2: "map_of (rooms s) R2 = Some r2"
    and only: "\<forall>r. r \<noteq> R1 \<longrightarrow> \<not> in_room_open s r u"
    and ord: "ordinary u"
  shows "if length (members r2) < 20
         then \<exists>s'. joinRoom sid R2 s = Inr s'
                \<and> joinRoom sid R2 (leaveRoom sid R1 s) = Inr s'
                \<and> (\<forall>r. in_room_open s' r u \<longleftrightarrow> r = R2)
                \<and> (fst ` set (members r1) \<subseteq> {u} \<longrightarrow> map_of (rooms s') R1 = None)
         else joinRoom sid R2 s = Inr (emit_open (Socket sid) (Error_message Sala_cheia) s)
                \<and> in_room_open (emit_open (Socket sid) (Error_message Sala_cheia) s) R1 u"
proof (cases "length (members r2) < 20")
  case False
  with sock u me r1 r2 in1 show ?thesis
    by (auto simp: joinRoom_def js_key_def in_room_open_def truthy_def split: option.splits)
next
  case True
  let ?t = "leaveRoom sid R1 s"
  let ?sock' = "sock\<lparr>sio_rooms := removeAll R1 (sio_rooms sock), currentRoomId := None\<rparr>"
  let ?t' = "?t\<lparr>sockets_open :=
                  AList.update sid
                    (?sock'\<lparr>sio_rooms := List.insert R2 (sio_rooms ?sock'),
                            currentRoomId := Some R2\<rparr>) (sockets_open ?t),
                rooms :=
                  AList.update R2 (r2\<lparr>members := AList.update u sid (members r2)\<rparr>) (rooms ?t),
                onlineUsers_open :=
                  AList.update u (me\<lparr>user_currentRoomId := Some R2\<rparr>) (onlineUsers_open ?t)\<rparr>"
  have k: "js_key (userId sock) = u" using u by (simp add: js_key_def)
  note L = leaveRoom_tables[OF sock r1, unfolded k, OF me in1]
  have t_sock: "map_of (sockets_open ?t) sid = Some ?sock'"
    by (simp add: L(1) update_conv')
  have t_me: "map_of (onlineUsers_open ?t) u = Some (me\<lparr>user_currentRoomId := None\<rparr>)"
    by (simp add: L(2) update_conv')
  have t_r2: "map_of (rooms ?t) R2 = Some r2"
    using L(3)[of R2] neq r2 by simp
  have t_out: "\<not> in_room_open ?t r u" for r
  proof (cases "r = R1")
    case True
    then show ?thesis using L(4) by simp
  next
    case False
    with only L(3)[of r] show ?thesis by (simp add: in_room_open_def)
  qed
  have first_leaves: "joinRoom sid R2 s = joinRoom sid R2 ?t"
    using sock u me cur R1 neq r2 True t_sock t_me t_r2
    by (simp add: joinRoom_def js_key_def truthy_def Let_def)
  have then_joins: "joinRoom sid R2 ?t =
     Inr (emit_open (Room_except R2 sid) (Participant_joined u (Some (displayName me)) sid)
           (emit_open (Socket sid)
              (Joined_room_successfully R2 (name r2) (getRoomParticipantDetails R2 ?t')) ?t'))"
    using True t_sock t_me t_r2 u
    by (simp add: joinRoom_def js_key_def truthy_def Let_def)
  have gone: "map_of (rooms ?t) R1 = None" if "fst ` set (members r1) \<subseteq> {u}"
    using leaveRoom_last_member[OF sock r1, unfolded k, OF me in1 that] .
  show ?thesis
    using True first_leaves then_joins t_out neq gone
    by (auto simp: in_room_open_def update_conv')
qed

text \<open>
  \<open>x\<close>, alone in \<open>room_1\<close>, joins \<open>room_2\<close>: \<open>room_1\<close> is removed and \<open>x\<close> is in
  \<open>room_2\<close> only. When \<open>room_2\<close> is full, \<open>x\<close> stays in \<open>room_1\<close>.
\<close>

theorem joinRoom_moves_user_witness:
  "(\<exists>s'. joinRoom ''x'' ''room_2'' two_rooms = Inr s'
         \<and> (\<forall>r. in_room_open s' r ''x'' \<longleftrightarrow> r = ''room_2'')
         \<and> map_of (rooms s') ''room_1'' = None)
   \<and> joinRoom ''x'' ''room_2'' full_house
       = Inr (emit_open (Socket ''x'') (Error_message Sala_cheia) full_house)
   \<and> in_room_open (emit_open (Socket ''x'') (Error_message Sala_cheia) full_house)
       ''room_1'' ''x''"
proof -
  let ?sa = "the (map_of (sockets_open two_rooms) ''x'')"
  let ?ma = "the (map_of (onlineUsers_open two_rooms) ''x'')"
  let ?a1 = "the (map_of (rooms two_rooms) ''room_1'')"
  let ?a2 = "the (map_of (rooms two_rooms) ''room_2'')"
  let ?sb = "the (map_of (sockets_open full_house) ''x'')"
  let ?mb = "the (map_of (onlineUsers_open full_house) ''x'')"
  let ?b1 = "the (map_of (rooms full_house) ''room_1'')"
  let ?b2 = "the (map_of (rooms full_house) ''room_2'')"
  have a1: "map_of (sockets_open two_rooms) ''x'' = Some ?sa"
    and a2: "userId ?sa = Some ''x''"
    and a3: "map_of (onlineUsers_open two_rooms) ''x'' = Some ?ma"
    and a4: "currentRoomId ?sa = Some ''room_1''"
    and a7: "map_of (rooms two_rooms) ''room_1'' = Some ?a1"
    and a8: "truthy (map_of (members ?a1) ''x'')"
    and a9: "map_of (rooms two_rooms) ''room_2'' = Some ?a2"
    and a10: "list_all (\<lambda>p. fst p = ''room_1'' \<or> map_of (members (snd p)) ''x'' = None)
                (rooms two_rooms)"
    and a11: "length (members ?a2) < 20"
    and a12: "fst ` set (members ?a1) \<subseteq> {''x''}"
    by code_simp+
  have b1: "map_of (sockets_open full_house) ''x'' = Some ?sb"
    and b2: "userId ?sb = Some ''x''"
    and b3: "map_of (onlineUsers_open full_house) ''x'' = Some ?mb"
    and b4: "currentRoomId ?sb = Some ''room_1''"
    and b7: "map_of (rooms full_house) ''room_1'' = Some ?b1"
    and b8: "truthy (map_of (members ?b1) ''x'')"
    and b9: "map_of (rooms full_house) ''room_2'' = Some ?b2"
    and b10: "list_all (\<lambda>p. fst p = ''room_1'' \<or> map_of (members (snd p)) ''x'' = None)
                (rooms full_house)"
    and b11: "\<not> length (members ?b2) < 20"
    by code_simp+
  have 5: "''room_1'' \<noteq> []" and 6: "''room_1'' \<noteq> ''room_2''"
    by simp_all
  have 7: "ordinary ''x''"
    by code_simp
  from joinRoom_moves_user[OF a1 a2 a3 a4 5 6 a7 a8 a9 only_in_room[OF a10] 7] a11 a12
       joinRoom_moves_user[OF b1 b2 b3 b4 5 6 b7 b8 b9 only_in_room[OF b10] 7] b11
  show ?thesis by auto
qed

end
